theory Spec2Isabelle
  imports Complex_Main "HOL-Library.Word" "HOL-Library.Log_Nat"
begin

section \<open>JavaScript values\<close>

text \<open>
  A JavaScript string is a sequence of UTF-16 code units. The degree sign of the
  weather pattern is the single code unit \<open>0xB0\<close>; ASCII literals of the source are
  written \<open>js ''...''\<close>.
\<close>

type_synonym code_unit = "16 word"
type_synonym jsstring = "code_unit list"

definition js :: "string \<Rightarrow> jsstring" where
  "js s = map of_char s"

text \<open>
  Numbers are doubles. A finite double is a rational; the two zeros are not told
  apart (nothing in the program depends on the sign of zero).
\<close>

datatype jsnum = Finite rat | NaN | PosInfinity | NegInfinity

datatype jsval =
    JUndefined
  | JNull
  | JBool bool
  | JNum jsnum
  | JStr jsstring
  | JArr "jsval list"
  | JObj "(jsstring \<times> jsval) list"

text \<open>ToBoolean: what \<open>!v\<close>, \<open>v || d\<close> and \<open>filter(Boolean)\<close> test.\<close>

fun truthy :: "jsval \<Rightarrow> bool" where
  "truthy JUndefined = False"
| "truthy JNull = False"
| "truthy (JBool b) = b"
| "truthy (JNum n) = (n \<noteq> NaN \<and> n \<noteq> Finite 0)"
| "truthy (JStr s) = (s \<noteq> [])"
| "truthy (JArr vs) = True"
| "truthy (JObj kvs) = True"

text \<open>
  Reading a property, as the parameter destructuring \<open>{ city }\<close> and
  \<open>{ toEmail, subject, body }\<close> do. The keys read by the program are not properties of
  strings, arrays, numbers or booleans, nor of \<open>Object.prototype\<close>, so only an object
  that carries the key gives a value other than \<open>undefined\<close>. The argument is never
  \<open>undefined\<close> or \<open>null\<close> here: the caller passes \<open>call.args || {}\<close>.
\<close>

fun get_prop :: "jsval \<Rightarrow> jsstring \<Rightarrow> jsval" where
  "get_prop (JObj kvs) k = (case map_of kvs k of Some v \<Rightarrow> v | None \<Rightarrow> JUndefined)"
| "get_prop v k = JUndefined"

text \<open>
  What a \<open>throw\<close> carries: an \<open>Error\<close> with its message, or zod's \<open>ZodError\<close> with
  its issues (each issue with the key it is about).
\<close>

datatype zod_issue = invalid_type jsstring | invalid_string jsstring | too_small jsstring

datatype js_error = Error jsstring | ZodError "zod_issue list"

section \<open>String primitives used by the weather tool\<close>

text \<open>
  The characters that \<open>String.prototype.trim\<close> strips and that \<open>\s\<close> matches:
  ECMAScript's WhiteSpace and LineTerminator code points.
\<close>

definition isWhiteSpace :: "code_unit \<Rightarrow> bool" where
  "isWhiteSpace c \<longleftrightarrow>
     c = 0x9 \<or> c = 0xA \<or> c = 0xB \<or> c = 0xC \<or> c = 0xD \<or> c = 0x20 \<or> c = 0xA0 \<or>
     c = 0x1680 \<or> (0x2000 \<le> c \<and> c \<le> 0x200A) \<or> c = 0x2028 \<or> c = 0x2029 \<or>
     c = 0x202F \<or> c = 0x205F \<or> c = 0x3000 \<or> c = 0xFEFF"

definition isDigit :: "code_unit \<Rightarrow> bool" where
  "isDigit c \<longleftrightarrow> 0x30 \<le> c \<and> c \<le> 0x39"

definition trim :: "jsstring \<Rightarrow> jsstring" where
  "trim s = rev (dropWhile isWhiteSpace (rev (dropWhile isWhiteSpace s)))"

text \<open>
  The pattern \<open>/([-+]?\d+)\s*\<degree>C/i\<close> tried at the start of a string. Each greedy
  quantifier is followed by something its own characters cannot match (a sign is not
  a digit; a digit is neither white space nor the degree sign; white space is not the
  degree sign), so giving characters back never turns a failure into a match and the
  longest run is the only candidate. The flag \<open>i\<close> lets \<open>C\<close> match \<open>c\<close> as well.
  The result is the capture group and the text after the match.
\<close>

definition match_here :: "jsstring \<Rightarrow> (jsstring \<times> jsstring) option" where
  "match_here s =
     (let (sign, s1) = (case s of
                          [] \<Rightarrow> ([], [])
                        | c # cs \<Rightarrow> if c = 0x2D \<or> c = 0x2B then ([c], cs) else ([], s));
          digits = takeWhile isDigit s1;
          s2 = dropWhile isWhiteSpace (dropWhile isDigit s1)
      in if digits = [] then None
         else (case s2 of
                 d # c # rest \<Rightarrow>
                   if d = 0xB0 \<and> (c = 0x43 \<or> c = 0x63) then Some (sign @ digits, rest)
                   else None
               | _ \<Rightarrow> None))"

text \<open>
  \<open>raw.match(re)\<close> without the flag \<open>g\<close>: the match at the leftmost position where
  the pattern matches. The result is the text before the match, the capture group
  \<open>tempMatch[1]\<close> and the text after the match; \<open>None\<close> is JavaScript's \<open>null\<close>.
\<close>

fun regexp_exec :: "jsstring \<Rightarrow> (jsstring \<times> jsstring \<times> jsstring) option" where
  "regexp_exec [] = None"
| "regexp_exec (c # cs) =
     (case match_here (c # cs) of
        Some (g, rest) \<Rightarrow> Some ([], g, rest)
      | None \<Rightarrow> (case regexp_exec cs of
                   Some (before, g, rest) \<Rightarrow> Some (c # before, g, rest)
                 | None \<Rightarrow> None))"

text \<open>
  \<open>raw.replace(/([-+]?\d+\s*\<degree>C)/i, '')\<close>: the same pattern with the group around
  all of it, so the same leftmost match, cut out once.
\<close>

definition replace_temp :: "jsstring \<Rightarrow> jsstring" where
  "replace_temp raw =
     (case regexp_exec raw of None \<Rightarrow> raw | Some (before, g, rest) \<Rightarrow> before @ rest)"

text \<open>
  \<open>Number(s)\<close> on a string of the capture's shape, an optional sign and decimal
  digits: the integer the digits denote, rounded to 53 significant bits (to the
  nearest, ties to even), and \<open>Infinity\<close> when the rounded value reaches \<open>2^1024\<close>.
  (ECMAScript lets an implementation round a literal of more than 20 digits less
  exactly; the result is an integer or \<open>Infinity\<close> either way. \<open>Number\<close> of any
  other string is not needed and is given as \<open>NaN\<close>.)
\<close>

definition decimal_value :: "jsstring \<Rightarrow> nat" where
  "decimal_value ds = foldl (\<lambda>a c. 10 * a + (unat c - 48)) 0 ds"

definition round_to_even :: "nat \<Rightarrow> nat" where
  "round_to_even n =
     (if n < 2 ^ 53 then n
      else (let e = floorlog 2 n - 53;
                q = n div 2 ^ e;
                r = n mod 2 ^ e
            in (if 2 ^ e < 2 * r \<or> (2 * r = 2 ^ e \<and> odd q) then q + 1 else q) * 2 ^ e))"

definition to_double :: "nat \<Rightarrow> jsnum" where
  "to_double n =
     (let m = round_to_even n
      in if 2 ^ 1024 \<le> m then PosInfinity else Finite (of_nat m))"

fun negate :: "jsnum \<Rightarrow> jsnum" where
  "negate (Finite x) = Finite (- x)"
| "negate NaN = NaN"
| "negate PosInfinity = NegInfinity"
| "negate NegInfinity = PosInfinity"

definition unsigned_Number :: "jsstring \<Rightarrow> jsnum" where
  "unsigned_Number ds =
     (if ds \<noteq> [] \<and> list_all isDigit ds then to_double (decimal_value ds) else NaN)"

definition Number :: "jsstring \<Rightarrow> jsnum" where
  "Number s =
     (case s of
        [] \<Rightarrow> NaN
      | c # cs \<Rightarrow> if c = 0x2D then negate (unsigned_Number cs)
                  else if c = 0x2B then unsigned_Number cs
                  else unsigned_Number s)"

fun isFinite :: "jsnum \<Rightarrow> bool" where
  "isFinite (Finite x) = True"
| "isFinite n = False"

section \<open>Conversation, collaborators and the record of effects\<close>

datatype functionCall = FunctionCall (call_name: jsstring) (call_args: jsval)

text \<open>A part of a model response: \<open>p.text\<close> and \<open>p.functionCall\<close>, each possibly absent.\<close>

record part =
  part_text :: "jsstring option"
  part_functionCall :: "functionCall option"

text \<open>
  What the program reads of a model response: the value of
  \<open>resp?.response?.candidates?.[0]?.content?.parts\<close>, \<open>None\<close> when a link of the
  chain is missing.
\<close>

type_synonym gen_response = "part list option"

datatype role = User | Model | Tool

datatype content_part =
    Text jsstring
  | FunctionCallPart functionCall
  | FunctionResponse jsstring jsval

record content =
  role :: role
  parts :: "content_part list"

text \<open>
  The options given to \<open>nodemailer.createTransport\<close> and the message given to
  \<open>sendMail\<close>. The port is kept as the text of \<open>SMTP_PORT\<close>: its conversion by
  \<open>Number\<close> and the flag \<open>secure\<close> computed from it are functions of that text and
  are left to the mail collaborator.
\<close>

record transport_options =
  host :: jsstring
  port :: jsstring
  user :: jsstring
  pass :: jsstring

record mail_message =
  mail_from :: jsstring
  mail_to :: jsstring
  mail_subject :: jsstring
  mail_text :: jsstring

text \<open>
  The effects of a run, in the order they happen: a model round trip (with the
  history sent), the call of a registered executor (name and arguments), the HTTP
  request of the weather tool, the mail submission of the email tool.
\<close>

datatype event =
    ModelCall "content list"
  | ExecutorCall jsstring jsval
  | HttpGet jsstring
  | SendMail transport_options mail_message

text \<open>
  Everything outside the program. The three network collaborators answer as a
  function of the effects so far and of the request, so that the same request may be
  answered differently at different times; each may throw. \<open>toLowerCase\<close> and
  \<open>encodeURIComponent\<close> (which throws on a lone surrogate) are the built-ins of the
  language, \<open>isEmail\<close> is the test behind zod's \<open>.email()\<close>, and \<open>inherited_member\<close> is
  what calling a member that \<open>toolsMap\<close> inherits from \<open>Object.prototype\<close> does.
\<close>

record world =
  argv_city :: jsstring
  argv_to :: jsstring
  argv_subject :: "jsstring option"
  process_env :: "jsstring \<Rightarrow> jsstring option"
  generateContent :: "event list \<Rightarrow> content list \<Rightarrow> js_error + gen_response"
  axios_get :: "event list \<Rightarrow> jsstring \<Rightarrow> js_error + jsstring"
  sendMail :: "event list \<Rightarrow> transport_options \<Rightarrow> mail_message \<Rightarrow> js_error + jsval"
  toLowerCase :: "jsstring \<Rightarrow> jsstring"
  encodeURIComponent :: "jsstring \<Rightarrow> js_error + jsstring"
  isEmail :: "jsstring \<Rightarrow> bool"
  inherited_member :: "jsstring \<Rightarrow> jsval \<Rightarrow> js_error + jsval"

section \<open>Schemas\<close>

record GetWeatherResult =
  city :: jsstring
  degree_c :: jsnum
  condition :: "jsstring option"

text \<open>
  \<open>GetWeatherResultSchema.parse\<close> on the object the weather tool builds. There
  \<open>city\<close> is a string and \<open>condition\<close> a string or \<open>undefined\<close>, which \<open>z.string()\<close>
  and \<open>z.string().optional()\<close> accept. \<open>z.number()\<close> accepts a value whose type is
  number and that is not \<open>NaN\<close>: zod classifies \<open>NaN\<close> as the type \<open>nan\<close> and
  reports \<open>invalid_type\<close> for it. A failed \<open>parse\<close> throws.
\<close>

definition GetWeatherResultSchema_parse :: "GetWeatherResult \<Rightarrow> js_error + GetWeatherResult" where
  "GetWeatherResultSchema_parse r =
     (if degree_c r = NaN then Inl (ZodError [invalid_type (js ''degree_c'')]) else Inr r)"

record SendEmailParams =
  toEmail :: jsstring
  subject :: jsstring
  body :: jsstring

text \<open>
  \<open>SendEmailParamsSchema.parse\<close>: \<open>z.string().email()\<close> for \<open>toEmail\<close>,
  \<open>z.string().min(1)\<close> for \<open>subject\<close> and \<open>body\<close>. zod checks every key and throws one
  \<open>ZodError\<close> with all the issues; without issues it returns the three strings
  (\<open>string_of\<close> reads a value that is known to be a string).
\<close>

definition email_issues :: "world \<Rightarrow> jsval \<Rightarrow> zod_issue list" where
  "email_issues w v =
     (case v of
        JStr s \<Rightarrow> if isEmail w s then [] else [invalid_string (js ''toEmail'')]
      | _ \<Rightarrow> [invalid_type (js ''toEmail'')])"

definition min1_issues :: "jsstring \<Rightarrow> jsval \<Rightarrow> zod_issue list" where
  "min1_issues key v =
     (case v of
        JStr s \<Rightarrow> if s = [] then [too_small key] else []
      | _ \<Rightarrow> [invalid_type key])"

fun string_of :: "jsval \<Rightarrow> jsstring" where
  "string_of (JStr s) = s"
| "string_of v = []"

definition SendEmailParamsSchema_parse ::
  "world \<Rightarrow> jsval \<Rightarrow> jsval \<Rightarrow> jsval \<Rightarrow> js_error + SendEmailParams" where
  "SendEmailParamsSchema_parse w t s b =
     (let issues = email_issues w t @ min1_issues (js ''subject'') s @ min1_issues (js ''body'') b
      in if issues = []
         then Inr \<lparr>toEmail = string_of t, subject = string_of s, body = string_of b\<rparr>
         else Inl (ZodError issues))"

section \<open>Tool implementations\<close>

definition getWeatherTool ::
  "world \<Rightarrow> jsval \<Rightarrow> event list \<Rightarrow> (js_error + GetWeatherResult) \<times> event list" where
  "getWeatherTool w args tr =
     (case get_prop args (js ''city'') of
        JStr c \<Rightarrow>
          if c = [] then (Inl (Error (js ''city is required'')), tr)
          else (case encodeURIComponent w (toLowerCase w c) of
                  Inl e \<Rightarrow> (Inl e, tr)
                | Inr enc \<Rightarrow>
                    (let url = js ''https://wttr.in/'' @ enc @ js ''?format=%C+%t'';
                         tr' = tr @ [HttpGet url]
                     in case axios_get w tr url of
                          Inl e \<Rightarrow> (Inl e, tr')
                        | Inr data \<Rightarrow>
                            (let raw = trim data;
                                 tempMatch = regexp_exec raw;
                                 d = (case tempMatch of
                                        Some (before, g, rest) \<Rightarrow> Number g
                                      | None \<Rightarrow> NaN);
                                 cond = trim (replace_temp raw)
                             in (GetWeatherResultSchema_parse
                                   \<lparr>city = c,
                                    degree_c = (if isFinite d then d else NaN),
                                    condition = (if cond \<noteq> [] then Some cond else None)\<rparr>,
                                 tr'))))
      | _ \<Rightarrow> (Inl (Error (js ''city is required'')), tr))"

text \<open>An environment variable that is set and not empty (\<open>!v\<close> is false).\<close>

definition env_value :: "world \<Rightarrow> string \<Rightarrow> jsstring option" where
  "env_value w k =
     (case process_env w (js k) of
        None \<Rightarrow> None
      | Some v \<Rightarrow> if v = [] then None else Some v)"

definition sendEmailTool ::
  "world \<Rightarrow> jsval \<Rightarrow> event list \<Rightarrow> (js_error + jsval) \<times> event list" where
  "sendEmailTool w args tr =
     (case (env_value w ''SMTP_HOST'', env_value w ''SMTP_PORT'', env_value w ''SMTP_USER'',
            env_value w ''SMTP_PASS'', env_value w ''FROM_EMAIL'') of
        (Some h, Some p, Some u, Some pw, Some f) \<Rightarrow>
          (case SendEmailParamsSchema_parse w (get_prop args (js ''toEmail''))
                  (get_prop args (js ''subject'')) (get_prop args (js ''body'')) of
             Inl e \<Rightarrow> (Inl e, tr)
           | Inr params \<Rightarrow>
               (let transporter = \<lparr>host = h, port = p, user = u, pass = pw\<rparr>;
                    msg = \<lparr>mail_from = f, mail_to = toEmail params,
                           mail_subject = subject params, mail_text = body params\<rparr>;
                    tr' = tr @ [SendMail transporter msg]
                in case sendMail w tr transporter msg of
                     Inl e \<Rightarrow> (Inl e, tr')
                   | Inr messageId \<Rightarrow> (Inr (JObj [(js ''messageId'', messageId)]), tr')))
      | _ \<Rightarrow>
          (Inl (Error (js ''Missing SMTP config: SMTP_HOST, SMTP_PORT, SMTP_USER, SMTP_PASS, FROM_EMAIL'')),
           tr))"

section \<open>The tool registry\<close>

datatype tool = get_weather | send_email

text \<open>The own properties of \<open>toolsMap\<close>.\<close>

definition toolsMap :: "jsstring \<Rightarrow> tool option" where
  "toolsMap n =
     (if n = js ''get_weather'' then Some get_weather
      else if n = js ''send_email'' then Some send_email
      else None)"

text \<open>
  \<open>toolsMap\<close> is an object literal, so its prototype is \<open>Object.prototype\<close>, and
  \<open>name in toolsMap\<close> is true for the inherited property names as well.
\<close>

definition Object_prototype_keys :: "jsstring list" where
  "Object_prototype_keys =
     map js [''constructor'', ''__defineGetter__'', ''__defineSetter__'', ''hasOwnProperty'',
             ''__lookupGetter__'', ''__lookupSetter__'', ''isPrototypeOf'',
             ''propertyIsEnumerable'', ''toString'', ''valueOf'', ''__proto__'',
             ''toLocaleString'']"

definition in_toolsMap :: "jsstring \<Rightarrow> bool" where
  "in_toolsMap n \<longleftrightarrow> toolsMap n \<noteq> None \<or> n \<in> set Object_prototype_keys"

definition weather_object :: "GetWeatherResult \<Rightarrow> jsval" where
  "weather_object r =
     JObj [(js ''city'', JStr (city r)),
           (js ''degree_c'', JNum (degree_c r)),
           (js ''condition'', (case condition r of Some s \<Rightarrow> JStr s | None \<Rightarrow> JUndefined))]"

text \<open>
  \<open>await toolsMap[name](args)\<close> for a name that passed the test \<open>name in toolsMap\<close>.
  The call of one of the two executors is recorded before the executor runs.
\<close>

definition call_tool ::
  "world \<Rightarrow> jsstring \<Rightarrow> jsval \<Rightarrow> event list \<Rightarrow> (js_error + jsval) \<times> event list" where
  "call_tool w n a tr =
     (case toolsMap n of
        Some get_weather \<Rightarrow>
          (case getWeatherTool w a (tr @ [ExecutorCall n a]) of
             (Inl e, tr') \<Rightarrow> (Inl e, tr')
           | (Inr r, tr') \<Rightarrow> (Inr (weather_object r), tr'))
      | Some send_email \<Rightarrow> sendEmailTool w a (tr @ [ExecutorCall n a])
      | None \<Rightarrow> (inherited_member w n a, tr))"

section \<open>The tool-call loop\<close>

definition extractFunctionCalls :: "gen_response \<Rightarrow> functionCall list" where
  "extractFunctionCalls resp =
     (let ps = (case resp of None \<Rightarrow> [] | Some ps \<Rightarrow> ps)
      in List.map_filter part_functionCall ps)"

definition buildFunctionResponsePart :: "jsstring \<Rightarrow> jsval \<Rightarrow> content_part" where
  "buildFunctionResponsePart n responseObj = FunctionResponse n responseObj"

record run_state =
  history :: "content list"
  trace :: "event list"

text \<open>The arguments an executor receives: \<open>call.args || {}\<close>.\<close>

definition args_of :: "functionCall \<Rightarrow> jsval" where
  "args_of call = (if truthy (call_args call) then call_args call else JObj [])"

text \<open>
  The body of \<open>for (const call of calls)\<close>. A \<open>throw\<close> leaves the loop with the error
  and the state reached.
\<close>

fun for_calls :: "world \<Rightarrow> functionCall list \<Rightarrow> run_state \<Rightarrow> js_error \<times> run_state + run_state" where
  "for_calls w [] st = Inr st"
| "for_calls w (call # calls) st =
     (let n = call_name call;
          a = args_of call
      in if \<not> in_toolsMap n
         then Inl (Error (js ''Unknown tool requested by model: '' @ n), st)
         else (case call_tool w n a (trace st) of
                 (Inl e, tr') \<Rightarrow> Inl (e, st\<lparr>trace := tr'\<rparr>)
               | (Inr result, tr') \<Rightarrow>
                   for_calls w calls
                     (st\<lparr>trace := tr',
                         history := history st @
                           [\<lparr>role = Model, parts = [FunctionCallPart call]\<rparr>,
                            \<lparr>role = Tool, parts = [buildFunctionResponsePart n result]\<rparr>]\<rparr>)))"

text \<open>\<open>await model.generateContent({ contents: history })\<close>.\<close>

definition model_call :: "world \<Rightarrow> run_state \<Rightarrow> js_error \<times> run_state + gen_response \<times> run_state" where
  "model_call w st =
     (let st' = st\<lparr>trace := trace st @ [ModelCall (history st)]\<rparr>
      in case generateContent w (trace st) (history st) of
           Inl e \<Rightarrow> Inl (e, st')
         | Inr resp \<Rightarrow> Inr (resp, st'))"

fun join_newline :: "jsstring list \<Rightarrow> jsstring" where
  "join_newline [] = []"
| "join_newline [x] = x"
| "join_newline (x # y # ys) = x @ [0xA] @ join_newline (y # ys)"

text \<open>
  \<open>resp?...?.parts?.map(p => p.text).filter(Boolean).join('\n') || 'Done.'\<close>
\<close>

definition finalText :: "gen_response \<Rightarrow> jsstring" where
  "finalText resp =
     (case resp of
        None \<Rightarrow> js ''Done.''
      | Some ps \<Rightarrow>
          (let joined = join_newline (filter (\<lambda>t. t \<noteq> []) (List.map_filter part_text ps))
           in if joined \<noteq> [] then joined else js ''Done.''))"

text \<open>
  How a run ends: \<open>Done t\<close> prints \<open>t\<close>; \<open>Failed e\<close> is an error that leaves \<open>main\<close>,
  is printed by the \<open>catch\<close> handler, and ends the process with status 1.
\<close>

datatype outcome = Done jsstring | Failed js_error

text \<open>
  The \<open>while (true)\<close> loop, entered with the value of \<open>safetyCounter\<close> and the last
  response. The result carries the final value of \<open>safetyCounter\<close>.
\<close>

function tool_loop ::
  "world \<Rightarrow> nat \<Rightarrow> run_state \<Rightarrow> gen_response \<Rightarrow> outcome \<times> nat \<times> run_state" where
  "tool_loop w safetyCounter st resp =
     (if 6 < safetyCounter + 1
      then (Failed (Error (js ''Too many tool-call iterations.'')), safetyCounter + 1, st)
      else (let calls = extractFunctionCalls resp
            in if calls = [] then (Done (finalText resp), safetyCounter + 1, st)
               else (case for_calls w calls st of
                       Inl (e, st') \<Rightarrow> (Failed e, safetyCounter + 1, st')
                     | Inr st' \<Rightarrow>
                         (case model_call w st' of
                            Inl (e, st'') \<Rightarrow> (Failed e, safetyCounter + 1, st'')
                          | Inr (resp', st'') \<Rightarrow> tool_loop w (safetyCounter + 1) st'' resp'))))"
  by pat_completeness auto
termination
  by (relation "measure (\<lambda>(w, safetyCounter, st, resp). 7 - safetyCounter)") auto

declare tool_loop.simps [simp del]

definition userPrompt :: "world \<Rightarrow> jsstring" where
  "userPrompt w =
     js ''City: '' @ argv_city w @ [0xA] @ js ''Recipient: '' @ argv_to w @ [0xA]
     @ (case argv_subject w of
          None \<Rightarrow> []
        | Some s \<Rightarrow> if s \<noteq> [] then js ''Preferred subject: '' @ s @ [0xA] else [])
     @ js ''Please email the current weather for the city to the recipient.''"

definition main :: "world \<Rightarrow> outcome \<times> nat \<times> run_state" where
  "main w =
     (let st = \<lparr>history = [\<lparr>role = User, parts = [Text (userPrompt w)]\<rparr>], trace = []\<rparr>
      in case model_call w st of
           Inl (e, st') \<Rightarrow> (Failed e, 0, st')
         | Inr (resp, st') \<Rightarrow> tool_loop w 0 st' resp)"

text \<open>The number of model round trips among the effects.\<close>

fun is_ModelCall :: "event \<Rightarrow> bool" where
  "is_ModelCall (ModelCall h) = True"
| "is_ModelCall ev = False"

definition model_calls :: "event list \<Rightarrow> nat" where
  "model_calls tr = length (filter is_ModelCall tr)"



text \<open>The two turns that one processed call adds to the history.\<close>

definition call_turns :: "functionCall \<times> jsval \<Rightarrow> content list" where
  "call_turns cv =
     [\<lparr>role = Model, parts = [FunctionCallPart (fst cv)]\<rparr>,
      \<lparr>role = Tool, parts = [buildFunctionResponsePart (call_name (fst cv)) (snd cv)]\<rparr>]"

section \<open>Concrete runs\<close>

text \<open>
  Worlds for the concrete runs below. The model answers its \<open>k\<close>-th request with the
  \<open>k\<close>-th response of a script and with a default response once the script is used up;
  the weather service answers every request with one fixed text; the mail relay
  accepts every message. The built-ins are given on the strings these runs use:
  \<open>toLowerCase\<close> on ASCII, \<open>encodeURIComponent\<close> on unreserved characters (where it
  changes nothing), the email test on the two recipients used (it looks for \<open>@\<close>),
  and the inherited member as \<open>toString\<close>.
\<close>

definition scripted ::
  "gen_response list \<Rightarrow> gen_response \<Rightarrow> event list \<Rightarrow> content list \<Rightarrow> js_error + gen_response" where
  "scripted rs d tr h = Inr (if model_calls tr < length rs then rs ! model_calls tr else d)"

definition ascii_toLowerCase :: "jsstring \<Rightarrow> jsstring" where
  "ascii_toLowerCase s = map (\<lambda>c. if 0x41 \<le> c \<and> c \<le> 0x5A then c + 0x20 else c) s"

definition smtp_env :: "jsstring \<Rightarrow> jsstring option" where
  "smtp_env k =
     (if k = js ''SMTP_HOST'' then Some (js ''smtp.example.com'')
      else if k = js ''SMTP_PORT'' then Some (js ''465'')
      else if k = js ''SMTP_USER'' then Some (js ''user'')
      else if k = js ''SMTP_PASS'' then Some (js ''secret'')
      else if k = js ''FROM_EMAIL'' then Some (js ''agent@example.com'')
      else None)"

definition demo_world ::
  "(jsstring \<Rightarrow> jsstring option) \<Rightarrow> jsstring \<Rightarrow> gen_response list \<Rightarrow> gen_response \<Rightarrow> world" where
  "demo_world env weather_text rs d =
     \<lparr>argv_city = js ''Paris'',
      argv_to = js ''a@b.com'',
      argv_subject = None,
      process_env = env,
      generateContent = scripted rs d,
      axios_get = (\<lambda>tr url. Inr weather_text),
      sendMail = (\<lambda>tr t m. Inr (JStr (js ''<1@example.com>''))),
      toLowerCase = ascii_toLowerCase,
      encodeURIComponent = (\<lambda>s. Inr s),
      isEmail = (\<lambda>s. 0x40 \<in> set s),
      inherited_member = (\<lambda>n a. Inr (JStr (js ''[object Object]'')))\<rparr>"

definition call_part :: "string \<Rightarrow> (string \<times> string) list \<Rightarrow> part" where
  "call_part n kvs =
     \<lparr>part_text = None,
      part_functionCall =
        Some (FunctionCall (js n) (JObj (map (\<lambda>(k, v). (js k, JStr (js v))) kvs)))\<rparr>"

definition text_part :: "string \<Rightarrow> part" where
  "text_part t = \<lparr>part_text = Some (js t), part_functionCall = None\<rparr>"

definition weather_call :: part where
  "weather_call = call_part ''get_weather'' [(''city'', ''Paris'')]"

definition paris_text :: jsstring where
  "paris_text = js ''Partly cloudy +15'' @ [0xB0, 0x43]"

definition paris_url :: jsstring where
  "paris_url = js ''https://wttr.in/paris?format=%C+%t''"

definition paris_result :: GetWeatherResult where
  "paris_result = \<lparr>city = js ''Paris'', degree_c = Finite 15, condition = Some (js ''Partly cloudy'')\<rparr>"

definition paris_args :: jsval where
  "paris_args = JObj [(js ''city'', JStr (js ''Paris''))]"

text \<open>The model asks for the weather of Paris again and again.\<close>

definition always_weather :: world where
  "always_weather = demo_world smtp_env paris_text [] (Some [weather_call])"

text \<open>The model asks for a tool that is not registered.\<close>

definition unknown_first :: world where
  "unknown_first = demo_world smtp_env paris_text [] (Some [call_part ''foo'' []])"

text \<open>Six rounds of one weather call each, then the closing text.\<close>

definition six_rounds_then_text :: world where
  "six_rounds_then_text =
     demo_world smtp_env paris_text (replicate 6 (Some [weather_call])) (Some [text_part ''ok''])"

text \<open>One response with two weather calls, then the closing text.\<close>

definition two_calls_batch :: world where
  "two_calls_batch =
     demo_world smtp_env paris_text [Some [weather_call, weather_call]] (Some [text_part ''ok''])"


text \<open>A call of \<open>send_email\<close> with a subject, a body and the given recipient.\<close>

definition mail_args :: "string \<Rightarrow> jsval" where
  "mail_args recipient =
     JObj [(js ''toEmail'', JStr (js recipient)), (js ''subject'', JStr (js ''Weather'')),
           (js ''body'', JStr (js ''Sunny''))]"

definition mail_call :: "string \<Rightarrow> part" where
  "mail_call recipient =
     call_part ''send_email''
       [(''toEmail'', recipient), (''subject'', ''Weather''), (''body'', ''Sunny'')]"

text \<open>The model asks to send a mail to a recipient that is not an address.\<close>

definition bad_recipient :: world where
  "bad_recipient =
     demo_world smtp_env paris_text [Some [mail_call ''not-an-email'']] (Some [text_part ''ok''])"

text \<open>The model asks to send a well-formed mail, and no mail variable is set.\<close>

definition no_smtp_env :: world where
  "no_smtp_env =
     demo_world (\<lambda>k. None) paris_text [Some [mail_call ''a@b.com'']] (Some [text_part ''ok''])"

text \<open>The weather service answers without a temperature.\<close>

definition no_temperature :: world where
  "no_temperature = demo_world smtp_env (js ''Sunny'') [] (Some [weather_call])"

text \<open>Six rounds of one weather call each, then a response without tool calls and without text.\<close>

definition silent_part :: part where
  "silent_part = \<lparr>part_text = None, part_functionCall = None\<rparr>"

definition six_rounds_then_silent :: world where
  "six_rounds_then_silent =
     demo_world smtp_env paris_text (replicate 6 (Some [weather_call]))
       (Some [silent_part, text_part []])"

section \<open>Basic facts about the loop\<close>

lemma js_Nil [simp]: "js [] = []"
  by (simp add: js_def)

lemma js_eq_Nil [simp]: "js s = [] \<longleftrightarrow> s = []"
  by (simp add: js_def)

lemma for_calls_append:
  "for_calls w (xs @ ys) st =
     (case for_calls w xs st of Inl x \<Rightarrow> Inl x | Inr st' \<Rightarrow> for_calls w ys st')"
  by (induction xs arbitrary: st) (auto simp: Let_def split: prod.splits sum.splits)

lemma for_calls_unknown:
  "\<not> in_toolsMap (call_name c) \<Longrightarrow>
   for_calls w (c # post) st =
     Inl (Error (js ''Unknown tool requested by model: '' @ call_name c), st)"
  by (simp add: Let_def)

lemma for_calls_throw:
  "in_toolsMap (call_name c) \<Longrightarrow> call_tool w (call_name c) (args_of c) (trace st) = (Inl e, tr') \<Longrightarrow>
   for_calls w (c # post) st = Inl (e, st\<lparr>trace := tr'\<rparr>)"
  by (simp add: Let_def)

lemma model_calls_append [simp]: "model_calls (xs @ ys) = model_calls xs + model_calls ys"
  by (simp add: model_calls_def)

lemma getWeatherTool_model_calls:
  "model_calls (snd (getWeatherTool w a tr)) = model_calls tr"
  by (auto simp: getWeatherTool_def Let_def model_calls_def split: jsval.splits sum.splits)

lemma sendEmailTool_model_calls:
  "model_calls (snd (sendEmailTool w a tr)) = model_calls tr"
  by (auto simp: sendEmailTool_def Let_def model_calls_def split: option.splits sum.splits)

lemma call_tool_model_calls:
  "model_calls (snd (call_tool w n a tr)) = model_calls tr"
proof (cases "toolsMap n")
  case None
  then show ?thesis by (simp add: call_tool_def)
next
  case (Some t)
  show ?thesis
  proof (cases t)
    case get_weather
    with Some getWeatherTool_model_calls [of w a "tr @ [ExecutorCall n a]"] show ?thesis
      by (auto simp: call_tool_def model_calls_def split: prod.splits sum.splits)
  next
    case send_email
    with Some sendEmailTool_model_calls [of w a "tr @ [ExecutorCall n a]"] show ?thesis
      by (auto simp: call_tool_def model_calls_def)
  qed
qed

lemma for_calls_model_calls:
  "for_calls w cs st = Inr st' \<Longrightarrow> model_calls (trace st') = model_calls (trace st)"
  "for_calls w cs st = Inl (e, st'') \<Longrightarrow> model_calls (trace st'') = model_calls (trace st)"
proof (induction cs arbitrary: st)
  case Nil
  { case 1 then show ?case by simp }
  { case 2 then show ?case by simp }
next
  case (Cons c cs)
  { case 1
    then show ?case using Cons.IH(1) call_tool_model_calls [of w "call_name c" "args_of c" "trace st"]
      by (auto simp: Let_def split: if_splits prod.splits sum.splits) }
  { case 2
    then show ?case using Cons.IH(2) call_tool_model_calls [of w "call_name c" "args_of c" "trace st"]
      by (auto simp: Let_def split: if_splits prod.splits sum.splits) }
qed

lemma model_call_count:
  "model_call w st = Inr (r, st') \<Longrightarrow> model_calls (trace st') = model_calls (trace st) + 1"
  "model_call w st = Inl (e, st'') \<Longrightarrow> model_calls (trace st'') = model_calls (trace st) + 1"
  by (auto simp: model_call_def Let_def model_calls_def split: sum.splits)

lemma tool_loop_model_calls:
  "model_calls (trace (snd (snd (tool_loop w n st resp)))) \<le> model_calls (trace st) + (6 - n)"
proof (induction w n st resp rule: tool_loop.induct)
  case (1 w n st resp)
  note unfold = tool_loop.simps [of w n st resp]
  show ?case
  proof (cases "6 < n + 1 \<or> extractFunctionCalls resp = []")
    case True
    then show ?thesis by (auto simp: unfold)
  next
    case False
    then have n: "n < 6" and calls: "extractFunctionCalls resp \<noteq> []" by auto
    show ?thesis
    proof (cases "for_calls w (extractFunctionCalls resp) st")
      case (Inl x)
      then show ?thesis using n calls for_calls_model_calls(2) [of w _ st "fst x" "snd x"]
        by (auto simp: unfold split: prod.splits)
    next
      case (Inr st')
      note fc = for_calls_model_calls(1) [OF Inr]
      show ?thesis
      proof (cases "model_call w st'")
        case (Inl x)
        then show ?thesis using n calls Inr fc model_call_count(2) [of w st' "fst x" "snd x"]
          by (auto simp: unfold split: prod.splits)
      next
        case (Inr y)
        then obtain r st'' where mc: "model_call w st' = Inr (r, st'')" by (cases y) auto
        have "\<not> 6 < n + 1" using n by simp
        from "1.IH" [OF this refl calls \<open>for_calls w _ st = Inr st'\<close> mc refl]
        have "model_calls (trace (snd (snd (tool_loop w (n + 1) st'' r)))) \<le> model_calls (trace st'') + (6 - (n + 1))" .
        then show ?thesis using n calls \<open>for_calls w _ st = Inr st'\<close> mc fc model_call_count(1) [OF mc]
          by (simp add: unfold)
      qed
    qed
  qed
qed

lemma for_calls_history_Inr:
  "for_calls w cs st = Inr st' \<Longrightarrow>
   \<exists>vs. length vs = length cs \<and> history st' = history st @ concat (map call_turns (zip cs vs))"
proof (induction cs arbitrary: st)
  case Nil
  then show ?case by simp
next
  case (Cons c cs)
  from Cons.prems obtain v tr' where
    step: "call_tool w (call_name c) (args_of c) (trace st) = (Inr v, tr')"
    and rest: "for_calls w cs (st\<lparr>trace := tr', history := history st @ call_turns (c, v)\<rparr>) = Inr st'"
    by (auto simp: Let_def call_turns_def split: if_splits prod.splits sum.splits)
  from Cons.IH [OF rest] obtain vs where
    vs: "length vs = length cs"
      "history st' = (history st @ call_turns (c, v)) @ concat (map call_turns (zip cs vs))"
    by auto
  then have "length (v # vs) = length (c # cs) \<and>
     history st' = history st @ concat (map call_turns (zip (c # cs) (v # vs)))"
    by simp
  then show ?case by blast
qed

lemma for_calls_history_Inl:
  "for_calls w cs st = Inl (e, st') \<Longrightarrow>
   \<exists>vs. length vs < length cs \<and> history st' = history st @ concat (map call_turns (zip cs vs))"
proof (induction cs arbitrary: st)
  case Nil
  then show ?case by simp
next
  case (Cons c cs)
  show ?case
  proof (cases "\<exists>v tr'. call_tool w (call_name c) (args_of c) (trace st) = (Inr v, tr') \<and> in_toolsMap (call_name c)")
    case True
    then obtain v tr' where
      step: "call_tool w (call_name c) (args_of c) (trace st) = (Inr v, tr')" "in_toolsMap (call_name c)"
      by blast
    with Cons.prems have
      rest: "for_calls w cs (st\<lparr>trace := tr', history := history st @ call_turns (c, v)\<rparr>) = Inl (e, st')"
      by (simp add: Let_def call_turns_def)
    from Cons.IH [OF rest] obtain vs where
      vs: "length vs < length cs"
        "history st' = (history st @ call_turns (c, v)) @ concat (map call_turns (zip cs vs))"
      by auto
    then have "length (v # vs) < length (c # cs) \<and>
       history st' = history st @ concat (map call_turns (zip (c # cs) (v # vs)))"
      by simp
    then show ?thesis by blast
  next
    case False
    with Cons.prems have "history st' = history st"
      by (auto simp: Let_def split: if_splits prod.splits sum.splits)
    then have "length ([]::jsval list) < length (c # cs) \<and>
       history st' = history st @ concat (map call_turns (zip (c # cs) []))"
      by simp
    then show ?thesis by blast
  qed
qed

lemma length_concat_call_turns:
  "length (concat (map call_turns xs)) = 2 * length xs"
  by (induction xs) (simp_all add: call_turns_def)

section \<open>Evaluating the concrete runs\<close>

lemma toolsMap_get_weather: "toolsMap (js ''get_weather'') = Some get_weather"
  by (simp add: toolsMap_def)

lemma toolsMap_send_email: "toolsMap (js ''send_email'') = Some send_email"
  by (simp add: toolsMap_def js_def)

lemma in_toolsMap_registered: "in_toolsMap (js ''get_weather'')" "in_toolsMap (js ''send_email'')"
  by (simp_all add: in_toolsMap_def toolsMap_get_weather toolsMap_send_email)

lemma not_in_toolsMap_foo: "\<not> in_toolsMap (js ''foo'')"
  by (simp add: in_toolsMap_def toolsMap_def Object_prototype_keys_def js_def)

lemma demo_get_weather_paris:
  "getWeatherTool (demo_world env paris_text rs d) (JObj [(js ''city'', JStr (js ''Paris''))]) tr
     = (Inr paris_result, tr @ [HttpGet paris_url])"
  by (simp add: getWeatherTool_def demo_world_def paris_text_def paris_url_def paris_result_def
      js_def ascii_toLowerCase_def trim_def replace_temp_def match_here_def isDigit_def isWhiteSpace_def
      Number_def unsigned_Number_def decimal_value_def to_double_def round_to_even_def GetWeatherResultSchema_parse_def)

lemma weather_call_parts:
  "part_functionCall weather_call = Some (FunctionCall (js ''get_weather'') paris_args)"
  by (simp add: weather_call_def call_part_def paris_args_def)

lemma args_of_paris: "args_of (FunctionCall n paris_args) = paris_args"
  by (simp add: args_of_def paris_args_def)

lemma demo_call_tool_paris:
  "call_tool (demo_world env paris_text rs d) (js ''get_weather'') paris_args tr
     = (Inr (weather_object paris_result),
        tr @ [ExecutorCall (js ''get_weather'') paris_args, HttpGet paris_url])"
  by (simp add: call_tool_def toolsMap_get_weather paris_args_def demo_get_weather_paris)

lemma demo_for_calls_paris:
  "for_calls (demo_world env paris_text rs d) (FunctionCall (js ''get_weather'') paris_args # cs) st
     = for_calls (demo_world env paris_text rs d) cs
         (st\<lparr>trace := trace st @ [ExecutorCall (js ''get_weather'') paris_args, HttpGet paris_url],
             history := history st @ call_turns (FunctionCall (js ''get_weather'') paris_args,
                                                 weather_object paris_result)\<rparr>)"
  by (simp add: Let_def in_toolsMap_registered args_of_paris demo_call_tool_paris call_turns_def)

lemma demo_model_call:
  "model_call (demo_world env wt rs d) st
     = Inr (if model_calls (trace st) < length rs then rs ! model_calls (trace st) else d,
            st\<lparr>trace := trace st @ [ModelCall (history st)]\<rparr>)"
  by (simp add: model_call_def demo_world_def scripted_def)

lemma extract_simps:
  "extractFunctionCalls (Some (p # ps)) =
     (case part_functionCall p of None \<Rightarrow> extractFunctionCalls (Some ps)
      | Some c \<Rightarrow> c # extractFunctionCalls (Some ps))"
  "extractFunctionCalls (Some []) = []"
  by (cases "part_functionCall p") (simp_all add: extractFunctionCalls_def List.map_filter_def)

lemma js_append: "js a @ js b = js (a @ b)"
  by (simp add: js_def)

lemma call_part_functionCall:
  "part_functionCall (call_part n kvs)
     = Some (FunctionCall (js n) (JObj (map (\<lambda>(k, v). (js k, JStr (js v))) kvs)))"
  by (simp add: call_part_def)

lemma text_part_functionCall: "part_functionCall (text_part t) = None"
  by (simp add: text_part_def)

lemma demo_env_value:
  "env_value (demo_world smtp_env wt rs d) ''SMTP_HOST'' = Some (js ''smtp.example.com'')"
  "env_value (demo_world smtp_env wt rs d) ''SMTP_PORT'' = Some (js ''465'')"
  "env_value (demo_world smtp_env wt rs d) ''SMTP_USER'' = Some (js ''user'')"
  "env_value (demo_world smtp_env wt rs d) ''SMTP_PASS'' = Some (js ''secret'')"
  "env_value (demo_world smtp_env wt rs d) ''FROM_EMAIL'' = Some (js ''agent@example.com'')"
  by (simp_all add: env_value_def demo_world_def smtp_env_def js_def)

lemma demo_no_env_value: "env_value (demo_world (\<lambda>k. None) wt rs d) k = None"
  by (simp add: env_value_def demo_world_def)

lemma mail_call_functionCall:
  "part_functionCall (mail_call r) = Some (FunctionCall (js ''send_email'') (mail_args r))"
  by (simp add: mail_call_def call_part_def mail_args_def)

lemma args_of_mail: "args_of (FunctionCall n (mail_args r)) = mail_args r"
  by (simp add: args_of_def mail_args_def)

lemma mail_args_props:
  "get_prop (mail_args r) (js ''toEmail'') = JStr (js r)"
  "get_prop (mail_args r) (js ''subject'') = JStr (js ''Weather'')"
  "get_prop (mail_args r) (js ''body'') = JStr (js ''Sunny'')"
  by (simp_all add: mail_args_def js_def)

lemma demo_isEmail: "isEmail (demo_world env wt rs d) s \<longleftrightarrow> 0x40 \<in> set s"
  by (simp add: demo_world_def)

lemma not_an_email: "(0x40 :: code_unit) \<notin> set (js ''not-an-email'')"
  by (simp add: js_def)

lemma demo_generateContent:
  "generateContent (demo_world env wt rs d) = scripted rs d"
  by (simp add: demo_world_def)

lemma silent_part_simps:
  "part_functionCall silent_part = None" "part_text silent_part = None"
  by (simp_all add: silent_part_def)

lemma replicate_6: "replicate 6 x = [x, x, x, x, x, x]"
  by (simp add: numeral_eq_Suc)

section \<open>Errors that leave the loop\<close>

lemma tool_loop_dispatch_error:
  assumes "n < 6" and "extractFunctionCalls resp \<noteq> []"
    and "for_calls w (extractFunctionCalls resp) st = Inl (e, st')"
  shows "tool_loop w n st resp = (Failed e, n + 1, st')"
  using assms by (simp add: tool_loop.simps [of w n st resp])

lemma tool_loop_stops:
  assumes "n < 6" and "extractFunctionCalls resp = []"
  shows "tool_loop w n st resp = (Done (finalText resp), n + 1, st)"
  using assms by (simp add: tool_loop.simps [of w n st resp])

lemma tool_loop_bound:
  "tool_loop w 6 st resp = (Failed (Error (js ''Too many tool-call iterations.'')), 7, st)"
  by (simp add: tool_loop.simps [of w 6 st resp])

lemma email_issues_Nil:
  "email_issues w v = [] \<longleftrightarrow> (\<exists>s. v = JStr s \<and> isEmail w s)"
  by (cases v) (simp_all add: email_issues_def)

lemma min1_issues_Nil:
  "min1_issues k v = [] \<longleftrightarrow> (\<exists>s. v = JStr s \<and> s \<noteq> [])"
  by (cases v) (simp_all add: min1_issues_def)

lemma parse_invalid:
  assumes "\<not> ((\<exists>t. tv = JStr t \<and> isEmail w t) \<and> (\<exists>s. sv = JStr s \<and> s \<noteq> [])
              \<and> (\<exists>b. bv = JStr b \<and> b \<noteq> []))"
  shows "\<exists>issues. issues \<noteq> [] \<and> SendEmailParamsSchema_parse w tv sv bv = Inl (ZodError issues)"
  using assms
  by (simp add: SendEmailParamsSchema_parse_def Let_def email_issues_Nil min1_issues_Nil)

lemma sendEmailTool_missing_config:
  assumes "env_value w ''SMTP_HOST'' = None \<or> env_value w ''SMTP_PORT'' = None
           \<or> env_value w ''SMTP_USER'' = None \<or> env_value w ''SMTP_PASS'' = None
           \<or> env_value w ''FROM_EMAIL'' = None"
  shows "sendEmailTool w a tr =
           (Inl (Error (js ''Missing SMTP config: SMTP_HOST, SMTP_PORT, SMTP_USER, SMTP_PASS, FROM_EMAIL'')), tr)"
  using assms by (auto simp: sendEmailTool_def split: option.splits)

lemma sendEmailTool_invalid:
  assumes "env_value w ''SMTP_HOST'' = Some h" and "env_value w ''SMTP_PORT'' = Some p"
    and "env_value w ''SMTP_USER'' = Some u" and "env_value w ''SMTP_PASS'' = Some pw"
    and "env_value w ''FROM_EMAIL'' = Some f"
    and "SendEmailParamsSchema_parse w (get_prop a (js ''toEmail'')) (get_prop a (js ''subject''))
           (get_prop a (js ''body'')) = Inl e"
  shows "sendEmailTool w a tr = (Inl e, tr)"
  using assms by (simp add: sendEmailTool_def)

lemma for_calls_send_email_throws:
  assumes "call_name c = js ''send_email''"
    and "sendEmailTool w (args_of c) (trace st @ [ExecutorCall (js ''send_email'') (args_of c)])
           = (Inl e, trace st @ [ExecutorCall (js ''send_email'') (args_of c)])"
  shows "for_calls w (c # post) st
           = Inl (e, st\<lparr>trace := trace st @ [ExecutorCall (js ''send_email'') (args_of c)]\<rparr>)"
  using assms
  by (simp add: Let_def in_toolsMap_def call_tool_def toolsMap_send_email)

lemma finalText_no_text:
  assumes "\<forall>ps. resp = Some ps \<longrightarrow> (\<forall>p\<in>set ps. part_text p = None \<or> part_text p = Some [])"
  shows "finalText resp = js ''Done.''"
proof (cases resp)
  case None
  then show ?thesis by (simp add: finalText_def)
next
  case (Some ps)
  with assms have "\<forall>p\<in>set ps. part_text p = None \<or> part_text p = Some []" by simp
  then have "filter (\<lambda>t. t \<noteq> []) (List.map_filter part_text ps) = []"
    by (induction ps) (auto simp: List.map_filter_def)
  with Some show ?thesis by (simp add: finalText_def)
qed

section \<open>The weather executor\<close>

text \<open>
  C8. Called with the city \<open>Paris\<close>, when the weather service answers the request
  with the text \<open>Partly cloudy +15\<degree>C\<close>, the weather executor returns the city
  \<open>Paris\<close>, the temperature 15 and the condition \<open>Partly cloudy\<close>.
\<close>

theorem C8_paris_partly_cloudy:
  assumes "encodeURIComponent w (toLowerCase w (js ''Paris'')) = Inr enc"
    and "axios_get w tr (js ''https://wttr.in/'' @ enc @ js ''?format=%C+%t'')
           = Inr (js ''Partly cloudy +15'' @ [0xB0, 0x43])"
  shows "fst (getWeatherTool w (JObj [(js ''city'', JStr (js ''Paris''))]) tr)
           = Inr \<lparr>city = js ''Paris'', degree_c = Finite 15,
                  condition = Some (js ''Partly cloudy'')\<rparr>"
proof -
  have raw: "trim (js ''Partly cloudy +15'' @ [0xB0, 0x43]) = js ''Partly cloudy +15'' @ [0xB0, 0x43]"
    by (simp add: trim_def js_def isWhiteSpace_def)
  have m: "regexp_exec (js ''Partly cloudy +15'' @ [0xB0, 0x43])
             = Some (js ''Partly cloudy '', js ''+15'', [])"
    by (simp add: js_def match_here_def isDigit_def isWhiteSpace_def)
  have n: "Number (js ''+15'') = Finite 15"
    by (simp add: js_def Number_def unsigned_Number_def isDigit_def to_double_def round_to_even_def
        decimal_value_def)
  have c: "trim (js ''Partly cloudy '') = js ''Partly cloudy''"
    by (simp add: trim_def js_def isWhiteSpace_def)
  have city: "get_prop (JObj [(js ''city'', JStr (js ''Paris''))]) (js ''city'') = JStr (js ''Paris'')"
    by simp
  have ne: "js ''Paris'' \<noteq> []" "js ''Partly cloudy'' \<noteq> []"
    by (simp_all add: js_def)
  show ?thesis
    unfolding getWeatherTool_def city
    using assms ne
    by (simp add: Let_def raw m n c replace_temp_def GetWeatherResultSchema_parse_def)
qed

theorem C8_paris_partly_cloudy_witness:
  "encodeURIComponent always_weather (toLowerCase always_weather (js ''Paris'')) = Inr (js ''paris'')
   \<and> axios_get always_weather [] (js ''https://wttr.in/'' @ js ''paris'' @ js ''?format=%C+%t'')
       = Inr (js ''Partly cloudy +15'' @ [0xB0, 0x43])
   \<and> fst (getWeatherTool always_weather (JObj [(js ''city'', JStr (js ''Paris''))]) [])
       = Inr \<lparr>city = js ''Paris'', degree_c = Finite 15,
              condition = Some (js ''Partly cloudy'')\<rparr>"
proof -
  have e: "encodeURIComponent always_weather (toLowerCase always_weather (js ''Paris''))
             = Inr (js ''paris'')"
    by (simp add: always_weather_def demo_world_def ascii_toLowerCase_def js_def)
  have a: "axios_get always_weather [] (js ''https://wttr.in/'' @ js ''paris'' @ js ''?format=%C+%t'')
             = Inr (js ''Partly cloudy +15'' @ [0xB0, 0x43])"
    by (simp add: always_weather_def demo_world_def paris_text_def)
  from e a C8_paris_partly_cloudy [OF e a] show ?thesis by simp
qed

text \<open>
  C10. When the \<open>city\<close> argument is missing, empty or not a string, the weather
  executor throws the error \<open>city is required\<close>, and it has made no network request:
  the effects are what they were before the call.
\<close>

theorem C10_city_is_required:
  assumes "\<forall>s. get_prop args (js ''city'') = JStr s \<longrightarrow> s = []"
  shows "getWeatherTool w args tr = (Inl (Error (js ''city is required'')), tr)"
  using assms by (cases "get_prop args (js ''city'')") (simp_all add: getWeatherTool_def)

theorem C10_city_is_required_witness:
  "get_prop (JObj [(js ''city'', JNum (Finite 5))]) (js ''city'') = JNum (Finite 5)
   \<and> getWeatherTool always_weather (JObj [(js ''city'', JNum (Finite 5))]) []
       = (Inl (Error (js ''city is required'')), [])
   \<and> getWeatherTool always_weather (JObj []) [] = (Inl (Error (js ''city is required'')), [])
   \<and> getWeatherTool always_weather (JObj [(js ''city'', JStr [])]) []
       = (Inl (Error (js ''city is required'')), [])"
proof -
  have h: "\<forall>s. get_prop (JObj [(js ''city'', JNum (Finite 5))]) (js ''city'') = JStr s \<longrightarrow> s = []"
    by simp
  have h': "\<forall>s. get_prop (JObj []) (js ''city'') = JStr s \<longrightarrow> s = []"
    by simp
  have h'': "\<forall>s. get_prop (JObj [(js ''city'', JStr [])]) (js ''city'') = JStr s \<longrightarrow> s = []"
    by simp
  from C10_city_is_required [OF h] C10_city_is_required [OF h'] C10_city_is_required [OF h'']
  show ?thesis by simp
qed

section \<open>The final output\<close>

lemma done_literal_within_bound:
  assumes "safetyCounter < 6"
    and "extractFunctionCalls resp = []"
    and "\<forall>ps. resp = Some ps \<longrightarrow> (\<forall>p\<in>set ps. part_text p = None \<or> part_text p = Some [])"
  shows "tool_loop w safetyCounter st resp = (Done (js ''Done.''), safetyCounter + 1, st)"
  using assms(1,2) finalText_no_text [OF assms(3)]
  by (simp add: tool_loop.simps [of w safetyCounter st resp])

text \<open>
  C9. When the model's terminal response has no part with a non-empty text, the run
  should print the literal \<open>Done.\<close>. It does when that response is one of the first
  six (\<open>done_literal_within_bound\<close>). It does not when that response is the one
  obtained after the sixth round of tool calls: in the run below the model answers
  six times with a weather call and then with a response that has no tool call and
  no text, for which \<open>finalText\<close> is \<open>Done.\<close>; the run fails with
  \<open>Too many tool-call iterations.\<close> and prints no final output.
\<close>

theorem C9_silent_after_sixth_round:
  "fst (main six_rounds_then_silent) = Failed (Error (js ''Too many tool-call iterations.''))
   \<and> fst (main six_rounds_then_silent) \<noteq> Done (js ''Done.'')
   \<and> model_calls (trace (snd (snd (main six_rounds_then_silent)))) = 7
   \<and> generateContent six_rounds_then_silent
        (butlast (trace (snd (snd (main six_rounds_then_silent)))))
        (history (snd (snd (main six_rounds_then_silent)))) = Inr (Some [silent_part, text_part []])
   \<and> extractFunctionCalls (Some [silent_part, text_part []]) = []
   \<and> finalText (Some [silent_part, text_part []]) = js ''Done.''"
  by (simp add: main_def six_rounds_then_silent_def replicate_6 demo_model_call tool_loop.simps
      extract_simps weather_call_parts text_part_functionCall demo_for_calls_paris model_calls_def
      demo_generateContent scripted_def finalText_def List.map_filter_def text_part_def
      silent_part_simps
      del: for_calls.simps(2))

section \<open>The conversation history\<close>

lemma for_calls_results:
  "for_calls w cs st = Inr st' \<Longrightarrow>
   \<exists>vs trs. length vs = length cs \<and> length trs = Suc (length cs)
     \<and> trs ! 0 = trace st \<and> last trs = trace st'
     \<and> (\<forall>i<length cs. call_tool w (call_name (cs ! i)) (args_of (cs ! i)) (trs ! i)
                          = (Inr (vs ! i), trs ! Suc i))
     \<and> history st' = history st @ concat (map call_turns (zip cs vs))"
proof (induction cs arbitrary: st)
  case Nil
  then have "length ([]::jsval list) = length ([]::functionCall list)
     \<and> length [trace st] = Suc (length ([]::functionCall list))
     \<and> [trace st] ! 0 = trace st \<and> last [trace st] = trace st'
     \<and> (\<forall>i<length ([]::functionCall list).
           call_tool w (call_name ([] ! i)) (args_of ([] ! i)) ([trace st] ! i)
             = (Inr ([] ! i), [trace st] ! Suc i))
     \<and> history st' = history st @ concat (map call_turns (zip [] ([]::jsval list)))"
    by simp
  then show ?case by blast
next
  case (Cons c cs)
  from Cons.prems obtain v tr' where
    step: "call_tool w (call_name c) (args_of c) (trace st) = (Inr v, tr')"
    and rest: "for_calls w cs (st\<lparr>trace := tr', history := history st @ call_turns (c, v)\<rparr>) = Inr st'"
    by (auto simp: Let_def call_turns_def split: if_splits prod.splits sum.splits)
  from Cons.IH [OF rest] obtain vs trs where
    len: "length vs = length cs" "length trs = Suc (length cs)"
    and ends: "trs ! 0 = tr'" "last trs = trace st'"
    and calls: "\<forall>i<length cs. call_tool w (call_name (cs ! i)) (args_of (cs ! i)) (trs ! i)
                                 = (Inr (vs ! i), trs ! Suc i)"
    and hist: "history st' = (history st @ call_turns (c, v)) @ concat (map call_turns (zip cs vs))"
    by auto
  from len(2) have ne: "trs \<noteq> []" by auto
  have "\<forall>i<length (c # cs).
          call_tool w (call_name ((c # cs) ! i)) (args_of ((c # cs) ! i)) ((trace st # trs) ! i)
            = (Inr ((v # vs) ! i), (trace st # trs) ! Suc i)"
  proof (intro allI impI)
    fix i assume i: "i < length (c # cs)"
    show "call_tool w (call_name ((c # cs) ! i)) (args_of ((c # cs) ! i)) ((trace st # trs) ! i)
            = (Inr ((v # vs) ! i), (trace st # trs) ! Suc i)"
    proof (cases i)
      case 0
      with step ends(1) show ?thesis by simp
    next
      case (Suc j)
      with i calls show ?thesis by simp
    qed
  qed
  with len ends ne hist have
    "length (v # vs) = length (c # cs) \<and> length (trace st # trs) = Suc (length (c # cs))
     \<and> (trace st # trs) ! 0 = trace st \<and> last (trace st # trs) = trace st'
     \<and> (\<forall>i<length (c # cs).
          call_tool w (call_name ((c # cs) ! i)) (args_of ((c # cs) ! i)) ((trace st # trs) ! i)
            = (Inr ((v # vs) ! i), (trace st # trs) ! Suc i))
     \<and> history st' = history st @ concat (map call_turns (zip (c # cs) (v # vs)))"
    by simp
  then show ?case by blast
qed

text \<open>
  C3, as amended. When the calls of one model response have all been processed, the
  history has grown by one model turn and one tool turn for each call of the batch
  (two turns per call, in the order of the calls). The model turn records that one
  call; the tool turn records the value that the call of its tool returned, the tools
  being called one after the other, each on the effects left by the one before. The
  history before the batch is a prefix of the history after it.
\<close>

theorem C3_two_turns_per_call:
  assumes "for_calls w calls st = Inr st'"
  shows "\<exists>results traces.
           length results = length calls \<and> length traces = Suc (length calls)
           \<and> traces ! 0 = trace st \<and> last traces = trace st'
           \<and> (\<forall>i<length calls.
                 call_tool w (call_name (calls ! i)) (args_of (calls ! i)) (traces ! i)
                   = (Inr (results ! i), traces ! Suc i))
           \<and> history st' = history st @ concat (map call_turns (zip calls results))
           \<and> length (history st') = length (history st) + 2 * length calls
           \<and> take (length (history st)) (history st') = history st"
proof -
  from for_calls_results [OF assms] obtain vs trs where
    *: "length vs = length calls" "length trs = Suc (length calls)"
      "trs ! 0 = trace st" "last trs = trace st'"
      "\<forall>i<length calls. call_tool w (call_name (calls ! i)) (args_of (calls ! i)) (trs ! i)
                            = (Inr (vs ! i), trs ! Suc i)"
      "history st' = history st @ concat (map call_turns (zip calls vs))"
    by blast
  from *(1,6) have "length (history st') = length (history st) + 2 * length calls"
    by (simp add: length_concat_call_turns)
  moreover from *(6) have "take (length (history st)) (history st') = history st"
    by simp
  ultimately show ?thesis using * by blast
qed

theorem C3_two_turns_per_call_witness:
  "for_calls two_calls_batch
     [FunctionCall (js ''get_weather'') paris_args, FunctionCall (js ''get_weather'') paris_args]
     \<lparr>history = [\<lparr>role = User, parts = [Text (js ''hello'')]\<rparr>], trace = []\<rparr>
     = Inr \<lparr>history = \<lparr>role = User, parts = [Text (js ''hello'')]\<rparr>
                       # call_turns (FunctionCall (js ''get_weather'') paris_args,
                                     weather_object paris_result)
                       @ call_turns (FunctionCall (js ''get_weather'') paris_args,
                                     weather_object paris_result),
             trace = [ExecutorCall (js ''get_weather'') paris_args, HttpGet paris_url,
                      ExecutorCall (js ''get_weather'') paris_args, HttpGet paris_url]\<rparr>
   \<and> (\<exists>results traces.
         length results = 2 \<and> length traces = 3 \<and> traces ! 0 = []
         \<and> last traces = [ExecutorCall (js ''get_weather'') paris_args, HttpGet paris_url,
                            ExecutorCall (js ''get_weather'') paris_args, HttpGet paris_url]
         \<and> call_tool two_calls_batch (js ''get_weather'') paris_args (traces ! 0)
              = (Inr (results ! 0), traces ! 1)
         \<and> call_tool two_calls_batch (js ''get_weather'') paris_args (traces ! 1)
              = (Inr (results ! 1), traces ! 2)
         \<and> \<lparr>role = User, parts = [Text (js ''hello'')]\<rparr>
               # call_turns (FunctionCall (js ''get_weather'') paris_args,
                             weather_object paris_result)
               @ call_turns (FunctionCall (js ''get_weather'') paris_args,
                             weather_object paris_result)
             = [\<lparr>role = User, parts = [Text (js ''hello'')]\<rparr>]
               @ concat (map call_turns
                   (zip [FunctionCall (js ''get_weather'') paris_args,
                         FunctionCall (js ''get_weather'') paris_args] results)))"
proof -
  let ?c = "FunctionCall (js ''get_weather'') paris_args"
  let ?st = "\<lparr>history = [\<lparr>role = User, parts = [Text (js ''hello'')]\<rparr>], trace = []\<rparr>"
  let ?st' = "\<lparr>history = \<lparr>role = User, parts = [Text (js ''hello'')]\<rparr>
                       # call_turns (?c, weather_object paris_result)
                       @ call_turns (?c, weather_object paris_result),
             trace = [ExecutorCall (js ''get_weather'') paris_args, HttpGet paris_url,
                      ExecutorCall (js ''get_weather'') paris_args, HttpGet paris_url]\<rparr>"
  have run: "for_calls two_calls_batch [?c, ?c] ?st = Inr ?st'"
    by (simp add: two_calls_batch_def demo_for_calls_paris del: for_calls.simps(2))
  from C3_two_turns_per_call [OF run] obtain results traces where
    *: "length results = length [?c, ?c]" "length traces = Suc (length [?c, ?c])"
      "traces ! 0 = trace ?st" "last traces = trace ?st'"
      "\<forall>i<length [?c, ?c].
          call_tool two_calls_batch (call_name ([?c, ?c] ! i)) (args_of ([?c, ?c] ! i)) (traces ! i)
            = (Inr (results ! i), traces ! Suc i)"
      "history ?st' = history ?st @ concat (map call_turns (zip [?c, ?c] results))"
    by blast
  from *(5) [rule_format, of 0] *(5) [rule_format, of 1] have
    "call_tool two_calls_batch (js ''get_weather'') paris_args (traces ! 0)
       = (Inr (results ! 0), traces ! 1)"
    "call_tool two_calls_batch (js ''get_weather'') paris_args (traces ! 1)
       = (Inr (results ! 1), traces ! 2)"
    by (simp_all add: args_of_paris numeral_2_eq_2)
  with * have "length results = 2 \<and> length traces = 3 \<and> traces ! 0 = []
         \<and> last traces = [ExecutorCall (js ''get_weather'') paris_args, HttpGet paris_url,
                            ExecutorCall (js ''get_weather'') paris_args, HttpGet paris_url]
         \<and> call_tool two_calls_batch (js ''get_weather'') paris_args (traces ! 0)
              = (Inr (results ! 0), traces ! 1)
         \<and> call_tool two_calls_batch (js ''get_weather'') paris_args (traces ! 1)
              = (Inr (results ! 1), traces ! 2)
         \<and> \<lparr>role = User, parts = [Text (js ''hello'')]\<rparr>
               # call_turns (?c, weather_object paris_result)
               @ call_turns (?c, weather_object paris_result)
             = [\<lparr>role = User, parts = [Text (js ''hello'')]\<rparr>]
               @ concat (map call_turns (zip [?c, ?c] results))"
    by simp
  with run show ?thesis by blast
qed

text \<open>
  The claim as stated fails on a batch of two calls: the run below processes one
  batch and ends normally, and its history holds two model turns and two tool turns
  after the user turn.
\<close>

theorem C3_two_calls_counterexample:
  "fst (main two_calls_batch) = Done (js ''ok'')
   \<and> model_calls (trace (snd (snd (main two_calls_batch)))) = 2
   \<and> map role (history (snd (snd (main two_calls_batch)))) = [User, Model, Tool, Model, Tool]"
  by (simp add: main_def two_calls_batch_def demo_model_call tool_loop.simps extract_simps
      weather_call_parts demo_for_calls_paris call_turns_def finalText_def text_part_def
      List.map_filter_def model_calls_def del: for_calls.simps(2))


section \<open>Errors raised while a batch is dispatched\<close>





text \<open>
  C5, as amended. When the mail configuration is present and the arguments of a
  \<open>send_email\<close> call do not pass the schema (the recipient is not a string that is an
  email address, or the subject or the body is not a non-empty string), and the
  calls before it in the batch have been processed without an error, the run fails
  with the \<open>ZodError\<close> of the validation. Nothing is added to the history for the
  call, no mail is submitted, and the model is not called again.
\<close>

theorem C5_validation_error_is_fatal:
  assumes "safetyCounter < 6"
    and "extractFunctionCalls resp = pre @ c # post"
    and "call_name c = js ''send_email''"
    and "for_calls w pre st = Inr st'"
    and "env_value w ''SMTP_HOST'' = Some h" and "env_value w ''SMTP_PORT'' = Some p"
    and "env_value w ''SMTP_USER'' = Some u" and "env_value w ''SMTP_PASS'' = Some pw"
    and "env_value w ''FROM_EMAIL'' = Some f"
    and "\<not> ((\<exists>t. get_prop (args_of c) (js ''toEmail'') = JStr t \<and> isEmail w t)
            \<and> (\<exists>s. get_prop (args_of c) (js ''subject'') = JStr s \<and> s \<noteq> [])
            \<and> (\<exists>b. get_prop (args_of c) (js ''body'') = JStr b \<and> b \<noteq> []))"
  shows "\<exists>issues. issues \<noteq> [] \<and>
           tool_loop w safetyCounter st resp
             = (Failed (ZodError issues), safetyCounter + 1,
                st'\<lparr>trace := trace st' @ [ExecutorCall (js ''send_email'') (args_of c)]\<rparr>)"
proof -
  from parse_invalid [OF assms(10)] obtain issues where
    issues: "issues \<noteq> []"
      "SendEmailParamsSchema_parse w (get_prop (args_of c) (js ''toEmail''))
         (get_prop (args_of c) (js ''subject'')) (get_prop (args_of c) (js ''body''))
       = Inl (ZodError issues)"
    by blast
  have "for_calls w (c # post) st'
          = Inl (ZodError issues,
                 st'\<lparr>trace := trace st' @ [ExecutorCall (js ''send_email'') (args_of c)]\<rparr>)"
    by (rule for_calls_send_email_throws [OF assms(3)])
      (rule sendEmailTool_invalid [OF assms(5-9) issues(2)])
  then have "for_calls w (pre @ c # post) st
          = Inl (ZodError issues,
                 st'\<lparr>trace := trace st' @ [ExecutorCall (js ''send_email'') (args_of c)]\<rparr>)"
    using assms(4) by (simp add: for_calls_append del: for_calls.simps)
  with assms(1,2) issues(1) show ?thesis
    by (simp add: tool_loop_dispatch_error)
qed

theorem C5_validation_error_is_fatal_witness:
  "(0::nat) < 6
   \<and> extractFunctionCalls (Some [mail_call ''not-an-email''])
       = [] @ FunctionCall (js ''send_email'') (mail_args ''not-an-email'') # []
   \<and> get_prop (mail_args ''not-an-email'') (js ''toEmail'') = JStr (js ''not-an-email'')
   \<and> \<not> isEmail bad_recipient (js ''not-an-email'')
   \<and> env_value bad_recipient ''SMTP_HOST'' = Some (js ''smtp.example.com'')
   \<and> (\<exists>issues. issues \<noteq> [] \<and>
         tool_loop bad_recipient 0 \<lparr>history = [], trace = []\<rparr> (Some [mail_call ''not-an-email''])
           = (Failed (ZodError issues), 0 + 1,
              \<lparr>history = [],
                 trace = [ExecutorCall (js ''send_email'') (mail_args ''not-an-email'')]\<rparr>))"
proof -
  let ?c = "FunctionCall (js ''send_email'') (mail_args ''not-an-email'')"
  have a: "(0::nat) < 6" by simp
  have b: "extractFunctionCalls (Some [mail_call ''not-an-email'']) = [] @ ?c # []"
    by (simp add: extract_simps mail_call_functionCall)
  have c: "call_name ?c = js ''send_email''" by simp
  have d: "for_calls bad_recipient [] \<lparr>history = [], trace = []\<rparr> = Inr \<lparr>history = [], trace = []\<rparr>"
    by simp
  have e: "\<not> isEmail bad_recipient (js ''not-an-email'')"
    by (simp add: bad_recipient_def mail_call_def [symmetric] demo_isEmail not_an_email)
  have env:
    "env_value bad_recipient ''SMTP_HOST'' = Some (js ''smtp.example.com'')"
    "env_value bad_recipient ''SMTP_PORT'' = Some (js ''465'')"
    "env_value bad_recipient ''SMTP_USER'' = Some (js ''user'')"
    "env_value bad_recipient ''SMTP_PASS'' = Some (js ''secret'')"
    "env_value bad_recipient ''FROM_EMAIL'' = Some (js ''agent@example.com'')"
    by (simp_all add: bad_recipient_def demo_env_value)
  have f: "\<not> ((\<exists>t. get_prop (args_of ?c) (js ''toEmail'') = JStr t \<and> isEmail bad_recipient t)
            \<and> (\<exists>s. get_prop (args_of ?c) (js ''subject'') = JStr s \<and> s \<noteq> [])
            \<and> (\<exists>b. get_prop (args_of ?c) (js ''body'') = JStr b \<and> b \<noteq> []))"
    using e by (simp add: args_of_mail mail_args_props)
  from C5_validation_error_is_fatal [OF a b c d env f] a b e env(1) show ?thesis
    by (simp add: args_of_mail mail_args_props)
qed

text \<open>
  The claim as stated fails: in the run below the recipient is not an address, the
  run ends with the validation error, the history holds the user turn alone, and the
  model has been called once.
\<close>

theorem C5_bad_recipient_counterexample:
  "fst (main bad_recipient) = Failed (ZodError [invalid_string (js ''toEmail'')])
   \<and> map role (history (snd (snd (main bad_recipient)))) = [User]
   \<and> model_calls (trace (snd (snd (main bad_recipient)))) = 1"
proof -
  have parse: "SendEmailParamsSchema_parse (demo_world smtp_env wt rs d)
                 (JStr (js ''not-an-email'')) (JStr (js ''Weather'')) (JStr (js ''Sunny''))
               = Inl (ZodError [invalid_string (js ''toEmail'')])" for wt rs d
    by (simp add: SendEmailParamsSchema_parse_def email_issues_def min1_issues_def demo_isEmail
        not_an_email)
  have tool: "sendEmailTool (demo_world smtp_env wt rs d) (mail_args ''not-an-email'') tr
                = (Inl (ZodError [invalid_string (js ''toEmail'')]), tr)" for wt rs d tr
    by (simp add: sendEmailTool_def demo_env_value mail_args_props parse)
  have "for_calls (demo_world smtp_env wt rs d)
          [FunctionCall (js ''send_email'') (mail_args ''not-an-email'')] st
        = Inl (ZodError [invalid_string (js ''toEmail'')],
               st\<lparr>trace := trace st @ [ExecutorCall (js ''send_email'') (mail_args ''not-an-email'')]\<rparr>)"
    for wt rs d st
    by (simp add: Let_def in_toolsMap_registered args_of_mail call_tool_def toolsMap_send_email tool)
  then show ?thesis
    by (simp add: main_def bad_recipient_def mail_call_def [symmetric] demo_model_call
        tool_loop.simps extract_simps mail_call_functionCall model_calls_def
        del: for_calls.simps(2))
qed

text \<open>
  C6, as amended. When one of the five mail variables is unset or empty, the email
  tool throws the error that names the five variables, and the effects are what
  they were before: no mail connection. In a run, when the calls before the
  \<open>send_email\<close> call in its batch have been processed without an error, the run
  fails with that error: nothing is added to the history for the call and the model
  is not called again.
\<close>

theorem C6_missing_config_is_fatal:
  assumes "safetyCounter < 6"
    and "extractFunctionCalls resp = pre @ c # post"
    and "call_name c = js ''send_email''"
    and "for_calls w pre st = Inr st'"
    and "env_value w ''SMTP_HOST'' = None \<or> env_value w ''SMTP_PORT'' = None
         \<or> env_value w ''SMTP_USER'' = None \<or> env_value w ''SMTP_PASS'' = None
         \<or> env_value w ''FROM_EMAIL'' = None"
  shows "sendEmailTool w (args_of c) tr
           = (Inl (Error (js ''Missing SMTP config: SMTP_HOST, SMTP_PORT, SMTP_USER, SMTP_PASS, FROM_EMAIL'')), tr)
         \<and> tool_loop w safetyCounter st resp
           = (Failed (Error (js ''Missing SMTP config: SMTP_HOST, SMTP_PORT, SMTP_USER, SMTP_PASS, FROM_EMAIL'')),
              safetyCounter + 1,
              st'\<lparr>trace := trace st' @ [ExecutorCall (js ''send_email'') (args_of c)]\<rparr>)"
proof -
  note tool = sendEmailTool_missing_config [OF assms(5)]
  have "for_calls w (c # post) st'
          = Inl (Error (js ''Missing SMTP config: SMTP_HOST, SMTP_PORT, SMTP_USER, SMTP_PASS, FROM_EMAIL''),
                 st'\<lparr>trace := trace st' @ [ExecutorCall (js ''send_email'') (args_of c)]\<rparr>)"
    by (rule for_calls_send_email_throws [OF assms(3)]) (rule tool)
  then have "for_calls w (pre @ c # post) st
          = Inl (Error (js ''Missing SMTP config: SMTP_HOST, SMTP_PORT, SMTP_USER, SMTP_PASS, FROM_EMAIL''),
                 st'\<lparr>trace := trace st' @ [ExecutorCall (js ''send_email'') (args_of c)]\<rparr>)"
    using assms(4) by (simp add: for_calls_append del: for_calls.simps)
  with assms(1,2) tool show ?thesis
    by (simp add: tool_loop_dispatch_error)
qed

theorem C6_missing_config_is_fatal_witness:
  "(0::nat) < 6
   \<and> extractFunctionCalls (Some [mail_call ''a@b.com''])
       = [] @ FunctionCall (js ''send_email'') (mail_args ''a@b.com'') # []
   \<and> env_value no_smtp_env ''SMTP_HOST'' = None
   \<and> sendEmailTool no_smtp_env (mail_args ''a@b.com'') []
       = (Inl (Error (js ''Missing SMTP config: SMTP_HOST, SMTP_PORT, SMTP_USER, SMTP_PASS, FROM_EMAIL'')), [])
   \<and> tool_loop no_smtp_env 0 \<lparr>history = [], trace = []\<rparr> (Some [mail_call ''a@b.com''])
       = (Failed (Error (js ''Missing SMTP config: SMTP_HOST, SMTP_PORT, SMTP_USER, SMTP_PASS, FROM_EMAIL'')),
          0 + 1,
          \<lparr>history = [], trace = [ExecutorCall (js ''send_email'') (mail_args ''a@b.com'')]\<rparr>)"
proof -
  let ?c = "FunctionCall (js ''send_email'') (mail_args ''a@b.com'')"
  have a: "(0::nat) < 6" by simp
  have b: "extractFunctionCalls (Some [mail_call ''a@b.com'']) = [] @ ?c # []"
    by (simp add: extract_simps mail_call_functionCall)
  have c: "call_name ?c = js ''send_email''" by simp
  have d: "for_calls no_smtp_env [] \<lparr>history = [], trace = []\<rparr> = Inr \<lparr>history = [], trace = []\<rparr>"
    by simp
  have e: "env_value no_smtp_env ''SMTP_HOST'' = None"
    by (simp add: no_smtp_env_def demo_no_env_value)
  then have f: "env_value no_smtp_env ''SMTP_HOST'' = None \<or> env_value no_smtp_env ''SMTP_PORT'' = None
         \<or> env_value no_smtp_env ''SMTP_USER'' = None \<or> env_value no_smtp_env ''SMTP_PASS'' = None
         \<or> env_value no_smtp_env ''FROM_EMAIL'' = None"
    by simp
  from C6_missing_config_is_fatal [OF a b c d f, of "[]"] a b e show ?thesis
    by (simp add: args_of_mail)
qed

text \<open>
  The claim as stated fails: with no mail variable set, the run below ends with the
  configuration error; the history holds the user turn alone, and the model has been
  called once.
\<close>

theorem C6_no_smtp_env_counterexample:
  "fst (main no_smtp_env)
     = Failed (Error (js ''Missing SMTP config: SMTP_HOST, SMTP_PORT, SMTP_USER, SMTP_PASS, FROM_EMAIL''))
   \<and> map role (history (snd (snd (main no_smtp_env)))) = [User]
   \<and> model_calls (trace (snd (snd (main no_smtp_env)))) = 1"
proof -
  have tool: "sendEmailTool (demo_world (\<lambda>k. None) wt rs d) a tr
                = (Inl (Error (js ''Missing SMTP config: SMTP_HOST, SMTP_PORT, SMTP_USER, SMTP_PASS, FROM_EMAIL'')), tr)"
    for wt rs d a tr
    by (simp add: sendEmailTool_def demo_no_env_value)
  have "for_calls (demo_world (\<lambda>k. None) wt rs d)
          [FunctionCall (js ''send_email'') (mail_args ''a@b.com'')] st
        = Inl (Error (js ''Missing SMTP config: SMTP_HOST, SMTP_PORT, SMTP_USER, SMTP_PASS, FROM_EMAIL''),
               st\<lparr>trace := trace st @ [ExecutorCall (js ''send_email'') (mail_args ''a@b.com'')]\<rparr>)"
    for wt rs d st
    by (simp add: Let_def in_toolsMap_registered args_of_mail call_tool_def toolsMap_send_email tool)
  then show ?thesis
    by (simp add: main_def no_smtp_env_def mail_call_def [symmetric] demo_model_call
        tool_loop.simps extract_simps mail_call_functionCall model_calls_def
        del: for_calls.simps(2))
qed


section \<open>The iteration bound\<close>

lemma for_calls_succeeds:
  assumes "\<forall>c\<in>set cs. in_toolsMap (call_name c)
             \<and> (\<forall>tr. \<exists>v. fst (call_tool w (call_name c) (args_of c) tr) = Inr v)"
  shows "\<exists>st'. for_calls w cs st = Inr st'"
  using assms
proof (induction cs arbitrary: st)
  case Nil
  then show ?case by simp
next
  case (Cons c cs)
  from Cons.prems have "\<forall>tr. \<exists>v. fst (call_tool w (call_name c) (args_of c) tr) = Inr v"
    by simp
  then obtain v where "fst (call_tool w (call_name c) (args_of c) (trace st)) = Inr v"
    by blast
  then obtain tr' where step: "call_tool w (call_name c) (args_of c) (trace st) = (Inr v, tr')"
    by (cases "call_tool w (call_name c) (args_of c) (trace st)") auto
  from Cons.prems have "in_toolsMap (call_name c)" by simp
  moreover from Cons.prems Cons.IH obtain st' where
    "for_calls w cs (st\<lparr>trace := tr', history := history st @
        [\<lparr>role = Model, parts = [FunctionCallPart c]\<rparr>,
         \<lparr>role = Tool, parts = [buildFunctionResponsePart (call_name c) v]\<rparr>]\<rparr>) = Inr st'"
    by (meson list.set_intros(2))
  ultimately show ?case using step by (simp add: Let_def)
qed

lemma tool_loop_never_final:
  assumes resp: "\<forall>tr h. \<exists>r. generateContent w tr h = Inr r \<and> extractFunctionCalls r \<noteq> []"
    and tools: "\<forall>tr h r. generateContent w tr h = Inr r \<longrightarrow>
                  (\<forall>c\<in>set (extractFunctionCalls r). in_toolsMap (call_name c)
                     \<and> (\<forall>tr'. \<exists>v. fst (call_tool w (call_name c) (args_of c) tr') = Inr v))"
  shows "n \<le> 6 \<Longrightarrow> generateContent w tr0 h0 = Inr resp0 \<Longrightarrow>
         \<exists>st'. tool_loop w n st resp0
                  = (Failed (Error (js ''Too many tool-call iterations.'')), 7, st')
               \<and> model_calls (trace st') = model_calls (trace st) + (6 - n)"
proof (induction "6 - n" arbitrary: n st resp0 tr0 h0)
  case 0
  then have "n = 6" by simp
  then show ?case by (simp add: tool_loop_bound)
next
  case (Suc k)
  then have n: "n < 6" by simp
  from resp Suc.prems(2) have calls: "extractFunctionCalls resp0 \<noteq> []"
    by (metis sum.inject(2))
  from tools Suc.prems(2) have
    "\<forall>c\<in>set (extractFunctionCalls resp0). in_toolsMap (call_name c)
       \<and> (\<forall>tr'. \<exists>v. fst (call_tool w (call_name c) (args_of c) tr') = Inr v)"
    by blast
  from for_calls_succeeds [OF this] obtain st1 where
    fc: "for_calls w (extractFunctionCalls resp0) st = Inr st1"
    by blast
  from resp obtain r where r: "generateContent w (trace st1) (history st1) = Inr r"
    by blast
  define st2 where "st2 = st1\<lparr>trace := trace st1 @ [ModelCall (history st1)]\<rparr>"
  have mc: "model_call w st1 = Inr (r, st2)"
    by (simp add: model_call_def r st2_def)
  have "k = 6 - (n + 1)" "n + 1 \<le> 6" using Suc.hyps(2) n by simp_all
  from Suc.hyps(1) [OF this r, of st2] obtain st' where
    st': "tool_loop w (n + 1) st2 r = (Failed (Error (js ''Too many tool-call iterations.'')), 7, st')"
      "model_calls (trace st') = model_calls (trace st2) + (6 - (n + 1))"
    by blast
  have "tool_loop w n st resp0 = tool_loop w (n + 1) st2 r"
    using n calls fc mc by (simp add: tool_loop.simps [of w n st resp0])
  moreover have "model_calls (trace st2) = model_calls (trace st) + 1"
    using for_calls_model_calls(1) [OF fc] model_call_count(1) [OF mc] by simp
  ultimately show ?case using st' n by simp
qed

text \<open>Whatever the collaborators answer, a run makes at most seven model round trips.\<close>

lemma main_model_calls_le_7:
  "model_calls (trace (snd (snd (main w)))) \<le> 7"
proof -
  let ?st = "\<lparr>history = [\<lparr>role = User, parts = [Text (userPrompt w)]\<rparr>], trace = []\<rparr>"
  show ?thesis
  proof (cases "model_call w ?st")
    case (Inl x)
    then obtain e st1 where mc: "model_call w ?st = Inl (e, st1)" by (cases x) auto
    from model_call_count(2) [OF mc] have "model_calls (trace st1) = 1"
      by (simp add: model_calls_def)
    with mc show ?thesis by (simp add: main_def)
  next
    case (Inr y)
    then obtain r st1 where mc: "model_call w ?st = Inr (r, st1)" by (cases y) auto
    from model_call_count(1) [OF mc] have "model_calls (trace st1) = 1"
      by (simp add: model_calls_def)
    with tool_loop_model_calls [of w 0 st1 r] mc show ?thesis
      by (simp add: main_def)
  qed
qed

text \<open>
  C1, as amended. When every model response contains at least one tool call, every
  requested name is a property of \<open>toolsMap\<close> and every requested call returns without
  throwing, the run ends with the error \<open>Too many tool-call iterations.\<close> when
  \<open>safetyCounter\<close> reaches 7, after exactly seven model round trips: there is no
  eighth.
\<close>

theorem C1_too_many_iterations:
  assumes "\<forall>tr h. \<exists>r. generateContent w tr h = Inr r \<and> extractFunctionCalls r \<noteq> []"
    and "\<forall>tr h r. generateContent w tr h = Inr r \<longrightarrow>
           (\<forall>c\<in>set (extractFunctionCalls r). in_toolsMap (call_name c)
              \<and> (\<forall>tr'. \<exists>v. fst (call_tool w (call_name c) (args_of c) tr') = Inr v))"
  shows "fst (main w) = Failed (Error (js ''Too many tool-call iterations.''))
         \<and> fst (snd (main w)) = 7
         \<and> model_calls (trace (snd (snd (main w)))) = 7"
proof -
  let ?st = "\<lparr>history = [\<lparr>role = User, parts = [Text (userPrompt w)]\<rparr>], trace = []\<rparr>"
  from assms(1) obtain r where r: "generateContent w (trace ?st) (history ?st) = Inr r"
    by blast
  define st1 where "st1 = ?st\<lparr>trace := trace ?st @ [ModelCall (history ?st)]\<rparr>"
  have mc: "model_call w ?st = Inr (r, st1)"
    using r by (simp add: model_call_def st1_def)
  from tool_loop_never_final [OF assms _ r, of 0 st1] obtain st' where
    st': "tool_loop w 0 st1 r = (Failed (Error (js ''Too many tool-call iterations.'')), 7, st')"
      "model_calls (trace st') = model_calls (trace st1) + (6 - 0)"
    by auto
  have "main w = tool_loop w 0 st1 r"
    using mc by (simp add: main_def)
  moreover have "model_calls (trace st1) = 1"
    by (simp add: st1_def model_calls_def)
  ultimately show ?thesis using st' by simp
qed

theorem C1_too_many_iterations_witness:
  "fst (main always_weather) = Failed (Error (js ''Too many tool-call iterations.''))
   \<and> fst (snd (main always_weather)) = 7
   \<and> model_calls (trace (snd (snd (main always_weather)))) = 7"
proof -
  have gen: "generateContent always_weather tr h = Inr (Some [weather_call])" for tr h
    by (simp add: always_weather_def demo_world_def scripted_def)
  have ex: "extractFunctionCalls (Some [weather_call]) = [FunctionCall (js ''get_weather'') paris_args]"
    by (simp add: extract_simps weather_call_parts)
  have a: "\<forall>tr h. \<exists>r. generateContent always_weather tr h = Inr r \<and> extractFunctionCalls r \<noteq> []"
    by (simp add: gen ex)
  have b: "\<forall>tr h r. generateContent always_weather tr h = Inr r \<longrightarrow>
           (\<forall>c\<in>set (extractFunctionCalls r). in_toolsMap (call_name c)
              \<and> (\<forall>tr'. \<exists>v. fst (call_tool always_weather (call_name c) (args_of c) tr') = Inr v))"
  proof (intro allI impI ballI)
    fix tr h r c
    assume "generateContent always_weather tr h = Inr r" and c: "c \<in> set (extractFunctionCalls r)"
    then have "r = Some [weather_call]" by (simp add: gen)
    with c ex have c: "c = FunctionCall (js ''get_weather'') paris_args" by simp
    show "in_toolsMap (call_name c)
            \<and> (\<forall>tr'. \<exists>v. fst (call_tool always_weather (call_name c) (args_of c) tr') = Inr v)"
      unfolding c always_weather_def
      by (simp add: in_toolsMap_registered args_of_paris demo_call_tool_paris)
  qed
  from C1_too_many_iterations [OF a b] show ?thesis .
qed

text \<open>
  The claim as stated fails when a response asks for a tool that is not registered:
  the run below, in which every response holds a tool call, ends at the first
  iteration with the unknown-tool error.
\<close>

theorem C1_unknown_tool_counterexample:
  "extractFunctionCalls (Some [call_part ''foo'' []]) = [FunctionCall (js ''foo'') (JObj [])]
   \<and> fst (main unknown_first) = Failed (Error (js ''Unknown tool requested by model: foo''))
   \<and> fst (main unknown_first) \<noteq> Failed (Error (js ''Too many tool-call iterations.''))
   \<and> fst (snd (main unknown_first)) = 1"
  by (simp add: main_def unknown_first_def demo_model_call tool_loop.simps extract_simps
      call_part_functionCall for_calls_unknown not_in_toolsMap_foo js_append model_calls_def
      del: for_calls.simps(2))
    (simp add: js_def)

text \<open>
  C2. A response without tool calls ends the run with its text when it is one of the
  first six responses (\<open>tool_loop_stops\<close>). The response obtained after the sixth
  round of tool calls is never looked at (\<open>tool_loop_bound\<close>): in the run below the
  model answers six times with a weather call and then with the text \<open>ok\<close>, and the
  run fails with \<open>Too many tool-call iterations.\<close> after the seventh round trip,
  whose answer was that text.
\<close>

theorem C2_final_text_after_sixth_round:
  "fst (main six_rounds_then_text) = Failed (Error (js ''Too many tool-call iterations.''))
   \<and> model_calls (trace (snd (snd (main six_rounds_then_text)))) = 7
   \<and> generateContent six_rounds_then_text (butlast (trace (snd (snd (main six_rounds_then_text)))))
        (history (snd (snd (main six_rounds_then_text)))) = Inr (Some [text_part ''ok''])
   \<and> extractFunctionCalls (Some [text_part ''ok'']) = []
   \<and> finalText (Some [text_part ''ok'']) = js ''ok''"
  by (simp add: main_def six_rounds_then_text_def replicate_6 demo_model_call tool_loop.simps
      extract_simps weather_call_parts text_part_functionCall demo_for_calls_paris model_calls_def
      demo_generateContent scripted_def finalText_def List.map_filter_def text_part_def
      del: for_calls.simps(2))

section \<open>The temperature of the weather result\<close>

lemma to_double_cases:
  "(\<exists>k::int. to_double n = Finite (of_int k)) \<or> to_double n = PosInfinity"
proof (cases "2 ^ 1024 \<le> round_to_even n")
  case True
  then show ?thesis by (simp add: to_double_def)
next
  case False
  then have "to_double n = Finite (of_int (int (round_to_even n)))"
    by (simp add: to_double_def)
  then show ?thesis by blast
qed

lemma unsigned_Number_cases:
  "(\<exists>k::int. unsigned_Number s = Finite (of_int k)) \<or> unsigned_Number s = PosInfinity
   \<or> unsigned_Number s = NaN"
  using to_double_cases [of "decimal_value s"] by (auto simp: unsigned_Number_def)

lemma negate_cases:
  assumes "(\<exists>k::int. x = Finite (of_int k)) \<or> x = PosInfinity \<or> x = NaN"
  shows "(\<exists>k::int. negate x = Finite (of_int k)) \<or> negate x = NegInfinity \<or> negate x = NaN"
proof -
  have "negate (Finite (of_int k)) = Finite (of_int (- k))" for k :: int by simp
  with assms show ?thesis by (metis negate.simps(2,3))
qed

lemma Number_isFinite:
  assumes "isFinite (Number s)"
  shows "\<exists>k::int. Number s = Finite (of_int k)"
proof (cases s)
  case Nil
  with assms show ?thesis by (simp add: Number_def)
next
  case (Cons c cs)
  have "(\<exists>k::int. Number s = Finite (of_int k)) \<or> Number s = PosInfinity
        \<or> Number s = NegInfinity \<or> Number s = NaN"
    using unsigned_Number_cases [of s] unsigned_Number_cases [of cs]
      negate_cases [OF unsigned_Number_cases [of cs]] Cons
    by (simp add: Number_def) blast
  with assms show ?thesis by auto
qed


lemma getWeatherTool_result_integer:
  assumes "getWeatherTool w a tr = (Inr r, tr')"
  shows "\<exists>k::int. degree_c r = Finite (of_int k)"
proof -
  have parse: "\<exists>k::int. degree_c r = Finite (of_int k)"
    if "GetWeatherResultSchema_parse
          \<lparr>city = c, degree_c = (if isFinite d then d else NaN), condition = cond\<rparr> = Inr r"
      and "d = NaN \<or> (\<exists>g. d = Number g)" for c d cond
  proof -
    from that(1) have "isFinite d" "degree_c r = d"
      by (auto simp: GetWeatherResultSchema_parse_def split: if_splits)
    with that(2) Number_isFinite show ?thesis by auto
  qed
  from assms show ?thesis
    unfolding getWeatherTool_def Let_def
    by (auto split: jsval.splits if_splits sum.splits option.splits intro: parse)
qed


lemma truncated_still_large:
  fixes p m n :: nat
  assumes p: "1 \<le> p" "p \<le> m" and n: "2 ^ m \<le> n"
  shows "2 ^ m \<le> (n div 2 ^ (floorlog 2 n - p)) * 2 ^ (floorlog 2 n - p)"
proof -
  define e where "e = floorlog 2 n - p"
  have "(0::nat) < 2 ^ m" by simp
  with n have n0: "0 < n" by linarith
  from floorlog_bounds [of n 2] n0 have
    lower: "2 ^ (floorlog 2 n - 1) \<le> n" and upper: "n < 2 ^ floorlog 2 n"
    by simp_all
  from n upper have "(2::nat) ^ m < 2 ^ floorlog 2 n" by (rule le_less_trans)
  then have fl: "m < floorlog 2 n" by simp
  then have split: "floorlog 2 n - 1 = (p - 1) + e" using p by (simp add: e_def)
  from lower have "2 ^ (p - 1) * 2 ^ e \<le> n" by (simp only: split power_add)
  then have "2 ^ (p - 1) \<le> n div 2 ^ e" by (simp add: less_eq_div_iff_mult_less_eq)
  then have a: "(2::nat) ^ (p - 1) * 2 ^ e \<le> (n div 2 ^ e) * 2 ^ e" by simp
  have "m \<le> (p - 1) + e" using fl p by (simp add: e_def)
  then have "(2::nat) ^ m \<le> 2 ^ ((p - 1) + e)" by (rule power_increasing) simp
  then have "(2::nat) ^ m \<le> 2 ^ (p - 1) * 2 ^ e" by (simp only: power_add)
  from this a show ?thesis unfolding e_def by (rule order_trans)
qed

lemma to_double_overflow:
  assumes "2 ^ 1024 \<le> n"
  shows "to_double n = PosInfinity"
proof -
  define e where "e = floorlog 2 n - 53"
  define q where "q = n div 2 ^ e"
  have "(2::nat) ^ 53 \<le> 2 ^ 1024" by (rule power_increasing) simp_all
  from this assms have "2 ^ 53 \<le> n" by (rule order_trans)
  then have big: "\<not> n < 2 ^ 53" by (simp only: not_less)
  have "2 ^ 1024 \<le> q * 2 ^ e"
    unfolding q_def e_def by (rule truncated_still_large [OF _ _ assms]) simp_all
  moreover have "q * 2 ^ e \<le> (q + 1) * 2 ^ e" by simp
  moreover have "round_to_even n = q * 2 ^ e \<or> round_to_even n = (q + 1) * 2 ^ e"
    unfolding round_to_even_def Let_def e_def [symmetric] q_def [symmetric]
    using big by (simp only: if_False split: if_split) blast
  ultimately have "2 ^ 1024 \<le> round_to_even n"
    by (metis order_trans)
  then show ?thesis by (simp only: to_double_def Let_def if_True)
qed

lemma Number_overflow:
  assumes "ds \<noteq> []" and "list_all isDigit ds" and "2 ^ 1024 \<le> decimal_value ds"
  shows "Number (0x2B # ds) = PosInfinity"
  using assms by (simp add: Number_def unsigned_Number_def to_double_overflow)

lemma getWeatherTool_not_finite:
  assumes "get_prop a (js ''city'') = JStr c" and "c \<noteq> []"
    and "encodeURIComponent w (toLowerCase w c) = Inr enc"
    and "axios_get w tr (js ''https://wttr.in/'' @ enc @ js ''?format=%C+%t'') = Inr data"
    and "regexp_exec (trim data) = Some (before, g, rest)"
    and "\<not> isFinite (Number g)"
  shows "fst (getWeatherTool w a tr) = Inl (ZodError [invalid_type (js ''degree_c'')])"
  using assms by (simp add: getWeatherTool_def Let_def GetWeatherResultSchema_parse_def)

lemma getWeatherTool_no_pattern:
  assumes "get_prop a (js ''city'') = JStr c" and "c \<noteq> []"
    and "encodeURIComponent w (toLowerCase w c) = Inr enc"
    and "axios_get w tr (js ''https://wttr.in/'' @ enc @ js ''?format=%C+%t'') = Inr data"
    and "regexp_exec (trim data) = None"
  shows "fst (getWeatherTool w a tr) = Inl (ZodError [invalid_type (js ''degree_c'')])"
  using assms by (simp add: getWeatherTool_def Let_def GetWeatherResultSchema_parse_def)

text \<open>
  C7. A result that the weather executor returns has an integer as \<open>degree_c\<close>
  (\<open>getWeatherTool_result_integer\<close>). But when the answer of the weather service has
  no temperature pattern, the executor puts \<open>NaN\<close> into the object it validates, the
  schema rejects it, and the call throws (\<open>getWeatherTool_no_pattern\<close>; the same
  happens when the digits of a matched pattern overflow to \<open>Infinity\<close>,
  \<open>getWeatherTool_not_finite\<close>). In the run
  below the service answers \<open>Sunny\<close>: the executor throws a \<open>ZodError\<close> about
  \<open>degree_c\<close> after its request, and the run fails with it.
\<close>

theorem C7_no_temperature_fails:
  "regexp_exec (trim (js ''Sunny'')) = None
   \<and> getWeatherTool no_temperature paris_args []
       = (Inl (ZodError [invalid_type (js ''degree_c'')]), [HttpGet paris_url])
   \<and> fst (main no_temperature) = Failed (ZodError [invalid_type (js ''degree_c'')])"
proof -
  have m: "regexp_exec (trim (js ''Sunny'')) = None"
    by (simp add: js_def trim_def isWhiteSpace_def match_here_def isDigit_def)
  have tool: "getWeatherTool (demo_world env (js ''Sunny'') rs d) paris_args tr
       = (Inl (ZodError [invalid_type (js ''degree_c'')]), tr @ [HttpGet paris_url])" for env rs d tr
    by (simp add: getWeatherTool_def paris_args_def demo_world_def paris_url_def js_def
        ascii_toLowerCase_def trim_def replace_temp_def match_here_def isDigit_def isWhiteSpace_def
        GetWeatherResultSchema_parse_def)
  have "for_calls (demo_world env (js ''Sunny'') rs d) [FunctionCall (js ''get_weather'') paris_args] st
        = Inl (ZodError [invalid_type (js ''degree_c'')],
               st\<lparr>trace := trace st @ [ExecutorCall (js ''get_weather'') paris_args, HttpGet paris_url]\<rparr>)"
    for env rs d st
    by (simp add: Let_def in_toolsMap_registered args_of_paris call_tool_def toolsMap_get_weather tool)
  then have "fst (main no_temperature) = Failed (ZodError [invalid_type (js ''degree_c'')])"
    by (simp add: main_def no_temperature_def demo_model_call tool_loop.simps extract_simps
        weather_call_parts model_calls_def del: for_calls.simps(2))
  with m tool [of smtp_env "[]" "Some [weather_call]" "[]"] show ?thesis
    by (simp add: no_temperature_def)
qed

section \<open>Names inherited from the prototype\<close>

text \<open>
  The test \<open>name in toolsMap\<close> lets the names of \<open>Object.prototype\<close> through: a call
  of \<open>toString\<close> is not rejected as an unknown tool; the inherited member is called
  and its result is added to the history.
\<close>

lemma toString_in_toolsMap:
  "toolsMap (js ''toString'') = None" "in_toolsMap (js ''toString'')"
  by (simp_all add: in_toolsMap_def toolsMap_def Object_prototype_keys_def js_def)

lemma inherited_name_not_rejected:
  assumes "toolsMap (call_name c) = None" and "in_toolsMap (call_name c)"
    and "inherited_member w (call_name c) (args_of c) = Inr v"
  shows "for_calls w [c] st = Inr (st\<lparr>trace := trace st, history := history st @ call_turns (c, v)\<rparr>)"
  using assms by (simp add: Let_def call_tool_def call_turns_def)

end
